theory Spec2Isabelle
  imports Complex_Main
begin

section \<open>The cover-canvas scene of CoverHero.tsx\<close>

text \<open>
  The component \<^verbatim>\<open>CoverHero\<close> (second module of
  \<^verbatim>\<open>src/components/hero/CoverHero.tsx\<close>, the one with an \<^verbatim>\<open>isDark\<close> prop)
  keeps a fabric.js canvas with a transparent background rectangle, a title and a
  subtitle text box, and any number of image sprites. JavaScript numbers are modelled as
  mathematical reals (integers where the source applies \<^verbatim>\<open>Math.floor\<close>); rounding
  of IEEE doubles is not part of the model. Objects are JavaScript references: they
  live in a heap addressed by an object id, and the canvas holds the list of ids in
  stacking order, bottom first.
\<close>

subsection \<open>Presets\<close>

datatype PresetKey = ux | performance | interaction

text \<open>
  The texts of \<^verbatim>\<open>PRESETS\<close> are Korean; they are given as their UTF-8 bytes.
\<close>

definition PRESETS :: "PresetKey \<Rightarrow> string \<times> string" where
  "PRESETS k = (case k of
     ux \<Rightarrow>
      (map char_of [0xEA, 0xB5, 0xAC, 0xEC, 0xA1, 0xB0, 0xEB, 0xA1, 0x9C, 0x20, 0xEC, 0x84,
         0xA4, 0xEA, 0xB3, 0x84, 0xED, 0x95, 0x98, 0xEB, 0x8A, 0x94, 0x20, 0x55, 0x49 :: nat],
       map char_of [0xEC, 0x9A, 0x94, 0xEA, 0xB5, 0xAC, 0xEC, 0x82, 0xAC, 0xED, 0x95, 0xAD,
         0xEC, 0x9D, 0x84, 0x20, 0xEC, 0xA0, 0x95, 0xEB, 0xA6, 0xAC, 0xED, 0x95, 0xB4, 0x20,
         0xED, 0x99, 0x95, 0xEC, 0x9E, 0xA5, 0x20, 0xEA, 0xB0, 0x80, 0xEB, 0x8A, 0xA5, 0xED,
         0x95, 0x9C, 0x20, 0xEC, 0x9D, 0xB8, 0xED, 0x84, 0xB0, 0xED, 0x8E, 0x98, 0xEC, 0x9D,
         0xB4, 0xEC, 0x8A, 0xA4, 0xEB, 0xA1, 0x9C, 0x20, 0xEA, 0xB5, 0xAC, 0xED, 0x98, 0x84,
         0xED, 0x95, 0xA9, 0xEB, 0x8B, 0x88, 0xEB, 0x8B, 0xA4, 0x2E :: nat])
   | performance \<Rightarrow>
      (map char_of [0xEC, 0x9A, 0xB4, 0xEC, 0x98, 0x81, 0x20, 0xED, 0x99, 0x98, 0xEA, 0xB2,
         0xBD, 0x20, 0xEC, 0xB5, 0x9C, 0xEC, 0xA0, 0x81, 0xED, 0x99, 0x94 :: nat],
       map char_of [0xEB, 0xA6, 0xAC, 0xEC, 0x86, 0x8C, 0xEC, 0x8A, 0xA4, 0x20, 0xED, 0x86,
         0xB5, 0xED, 0x95, 0xA9, 0xEA, 0xB3, 0xBC, 0x20, 0xEA, 0xB5, 0xAC, 0xEC, 0xA1, 0xB0,
         0x20, 0xEA, 0xB0, 0x9C, 0xEC, 0x84, 0xA0, 0xEC, 0x9D, 0x84, 0x20, 0xED, 0x86, 0xB5,
         0xED, 0x95, 0xB4, 0x20, 0xEB, 0xB9, 0x84, 0xEC, 0x9A, 0xA9, 0xEA, 0xB3, 0xBC, 0x20,
         0xEC, 0x84, 0xB1, 0xEB, 0x8A, 0xA5, 0xEC, 0x9D, 0x84, 0x20, 0xEA, 0xB0, 0x9C, 0xEC,
         0x84, 0xA0, 0xED, 0x95, 0xA9, 0xEB, 0x8B, 0x88, 0xEB, 0x8B, 0xA4, 0x2E :: nat])
   | interaction \<Rightarrow>
      (map char_of [0xEC, 0x82, 0xAC, 0xEC, 0x9A, 0xA9, 0xEC, 0x9E, 0x90, 0x20, 0xEC, 0x9D,
         0xB8, 0xED, 0x84, 0xB0, 0xEB, 0x9E, 0x99, 0xEC, 0x85, 0x98, 0x20, 0xEC, 0x84, 0xA4,
         0xEA, 0xB3, 0x84 :: nat],
       map char_of [0x43, 0x61, 0x6E, 0x76, 0x61, 0x73, 0x20, 0xEA, 0xB8, 0xB0, 0xEB, 0xB0,
         0x98, 0x20, 0x55, 0x49, 0xEC, 0x99, 0x80, 0x20, 0xEB, 0xB3, 0xB5, 0xEC, 0x9E, 0xA1,
         0xED, 0x95, 0x9C, 0x20, 0xEC, 0x83, 0x81, 0xED, 0x98, 0xB8, 0xEC, 0x9E, 0x91, 0xEC,
         0x9A, 0xA9, 0xEC, 0x9D, 0x84, 0x20, 0xEC, 0xA7, 0x81, 0xEC, 0xA0, 0x91, 0x20, 0xEA,
         0xB5, 0xAC, 0xED, 0x98, 0x84, 0xED, 0x95, 0xA9, 0xEB, 0x8B, 0x88, 0xEB, 0x8B, 0xA4,
         0x2E :: nat]))"

definition preset_title :: "PresetKey \<Rightarrow> string" where
  "preset_title k = fst (PRESETS k)"

definition preset_subtitle :: "PresetKey \<Rightarrow> string" where
  "preset_subtitle k = snd (PRESETS k)"

text \<open>The theme-dependent fills of the two labels and of the export background.\<close>

definition title_fill :: "bool \<Rightarrow> string" where
  "title_fill isDark = (if isDark then ''rgba(255,255,255,0.96)'' else ''rgba(18,22,31,0.95)'')"

definition subtitle_fill :: "bool \<Rightarrow> string" where
  "subtitle_fill isDark = (if isDark then ''rgba(255,255,255,0.8)'' else ''rgba(18,22,31,0.72)'')"

definition export_fill :: "bool \<Rightarrow> string" where
  "export_fill isDark = (if isDark then ''#0B1020'' else ''#F4F7FB'')"

subsection \<open>Scene objects and the canvas\<close>

type_synonym oid = nat

text \<open>
  A fabric object, with the attributes the component reads or writes and those that
  the canvas writes when a selection of several objects is released (skew, flip, and
  \<open>o_group\<close>: the object is a member of the active selection, fabric's
  \<^verbatim>\<open>object.group\<close>). The purely cosmetic ones (corner style, border colours, font
  family, weight, line height) are constant after construction and left out.
\<close>

record fobject =
  o_left :: real
  o_top :: real
  o_width :: real
  o_height :: real
  o_scaleX :: real
  o_scaleY :: real
  o_angle :: real
  o_fill :: string
  o_text :: string
  o_fontSize :: real
  o_originX :: string
  o_originY :: string
  o_selectable :: bool
  o_evented :: bool
  o_skewX :: real
  o_skewY :: real
  o_flipX :: bool
  o_flipY :: bool
  o_group :: bool

text \<open>fabric.js defaults of a freshly constructed object.\<close>

definition new_object :: fobject where
  "new_object = \<lparr> o_left = 0, o_top = 0, o_width = 0, o_height = 0, o_scaleX = 1,
     o_scaleY = 1, o_angle = 0, o_fill = ''rgb(0,0,0)'', o_text = [], o_fontSize = 40,
     o_originX = ''left'', o_originY = ''top'', o_selectable = True, o_evented = True,
     o_skewX = 0, o_skewY = 0, o_flipX = False, o_flipY = False, o_group = False \<rparr>"

text \<open>
  What the canvas and the canvas element are asked to do, in the order of the calls.
  A render request is one call of \<^verbatim>\<open>requestRenderAll\<close>.
\<close>

datatype event =
    EvAdd oid
  | EvRemove oid
  | EvSendToBack oid
  | EvBringToFront oid
  | EvRender
  | EvToDataURL
  | EvDownload
  | EvElWidth int
  | EvElHeight int
  | EvSetWidth int
  | EvSetHeight int
  | EvSetZoom real

text \<open>
  The canvas is created with \<^verbatim>\<open>selection: true\<close>, so the user can select several
  objects at once. fabric then makes an active selection, a group that is not itself on
  the canvas: its members stay in the object list, marked by \<open>o_group\<close>, with a
  position relative to the centre of the group; moving, rotating or scaling the
  selection changes the group only. When the selection is released, the transform of
  the group is written into each member. Of the group the model keeps \<open>sel_matrix\<close>,
  the linear part \<open>(a, b, c, d)\<close> of its \<^verbatim>\<open>calcOwnMatrix()\<close> (rotation, scale, skew
  and flip), and \<open>sel_position\<close>, the left and top that a member gets on release (from
  the centre of the group and fabric's geometry of origins and strokes, which are not
  modelled further).
\<close>

type_synonym matrix = "real \<times> real \<times> real \<times> real"

record selection =
  sel_matrix :: matrix
  sel_position :: "fobject \<Rightarrow> real \<times> real"

datatype active = NoActive | ActiveObject oid | ActiveSelection selection

text \<open>
  The state reachable from the refs of a mounted component: the heap of objects, the
  fabric canvas \<^verbatim>\<open>c\<close> (its object list, size, zoom, active object and the
  \<^verbatim>\<open>renderOnAddRemove\<close> option), the canvas element \<^verbatim>\<open>el\<close> (its
  \<^verbatim>\<open>width\<close>/\<^verbatim>\<open>height\<close> attributes and CSS size), and the three protected
  objects held by \<^verbatim>\<open>bgRef\<close>, \<^verbatim>\<open>titleRef\<close> and \<^verbatim>\<open>subtitleRef\<close>.
  \<open>retina\<close> is \<^verbatim>\<open>fabric.devicePixelRatio\<close>, which fabric reads from the window
  once, when the library is loaded; the canvas keeps the default
  \<^verbatim>\<open>enableRetinaScaling: true\<close>.
\<close>

record scene =
  heap :: "oid \<Rightarrow> fobject"
  next_id :: oid
  objects :: "oid list"
  c_width :: int
  c_height :: int
  zoom :: real
  activeObject :: active
  renderOnAddRemove :: bool
  retina :: real
  el_width :: int
  el_height :: int
  style_width :: int
  style_height :: int
  bg :: oid
  title :: oid
  subtitle :: oid
  log :: "event list"

text \<open>
  The component: the React state \<^verbatim>\<open>preset\<close> and the refs. The refs are assigned
  together inside \<^verbatim>\<open>init\<close> and cleared together by the cleanup, with no await in
  between, so a handler sees either all of them (\<open>Some\<close>) or none (\<open>None\<close>).
\<close>

record component =
  preset :: PresetKey
  refs :: "scene option"

subsection \<open>The fabric.js calls the component makes\<close>

text \<open>
  These follow the documented behaviour of fabric.js 2--5 (the versions with
  \<^verbatim>\<open>import { fabric }\<close>, \<^verbatim>\<open>requestRenderAll\<close> and the callback form of
  \<^verbatim>\<open>Image.fromURL\<close>): \<^verbatim>\<open>add\<close> pushes, \<^verbatim>\<open>remove\<close> splices the first
  occurrence out, \<^verbatim>\<open>sendToBack\<close> and \<^verbatim>\<open>bringToFront\<close> move an object to the
  start or the end of the list, each of them requests a render when
  \<^verbatim>\<open>renderOnAddRemove\<close> is set (the component constructs the canvas with the
  option on), and \<^verbatim>\<open>getObjects()\<close> returns a copy of the list (it does so since
  fabric.js 2.3.5), so that removing objects while walking the result skips none.
\<close>

definition c_requestRenderAll :: "scene \<Rightarrow> scene" where
  "c_requestRenderAll s = s\<lparr> log := log s @ [EvRender] \<rparr>"

definition render_on_change :: "scene \<Rightarrow> scene" where
  "render_on_change s = (if renderOnAddRemove s then c_requestRenderAll s else s)"

definition c_add :: "oid \<Rightarrow> scene \<Rightarrow> scene" where
  "c_add x s = render_on_change (s\<lparr> objects := objects s @ [x], log := log s @ [EvAdd x] \<rparr>)"

definition c_remove :: "oid \<Rightarrow> scene \<Rightarrow> scene" where
  "c_remove x s =
     (if x \<in> set (objects s)
      then render_on_change (s\<lparr> objects := remove1 x (objects s), log := log s @ [EvRemove x] \<rparr>)
      else s)"

definition c_sendToBack :: "oid \<Rightarrow> scene \<Rightarrow> scene" where
  "c_sendToBack x s =
     render_on_change (s\<lparr> objects := x # remove1 x (objects s), log := log s @ [EvSendToBack x] \<rparr>)"

definition c_bringToFront :: "oid \<Rightarrow> scene \<Rightarrow> scene" where
  "c_bringToFront x s =
     render_on_change (s\<lparr> objects := remove1 x (objects s) @ [x], log := log s @ [EvBringToFront x] \<rparr>)"

definition c_getObjects :: "scene \<Rightarrow> oid list" where
  "c_getObjects s = objects s"

text \<open>
  Releasing a selection of several objects (\<^verbatim>\<open>ActiveSelection.onDeselect\<close>, which
  destroys the group): for each member the matrix of the group is multiplied with the
  member's own matrix, the product is decomposed by \<^verbatim>\<open>qrDecompose\<close> and the result is
  written into the member (\<^verbatim>\<open>applyTransformToObject\<close>), which then leaves the group.
  Angles are in degrees. The quotient in \<open>qrDecompose\<close> is that of the reals: for a
  singular matrix (a scale of 0) JavaScript gives NaN, the model 0.
\<close>

definition multiplyTransformMatrices :: "matrix \<Rightarrow> matrix \<Rightarrow> matrix" where
  "multiplyTransformMatrices a b =
     (case a of (a0, a1, a2, a3) \<Rightarrow> case b of (b0, b1, b2, b3) \<Rightarrow>
        (a0 * b0 + a2 * b1, a1 * b0 + a3 * b1, a0 * b2 + a2 * b3, a1 * b2 + a3 * b3))"

definition degreesToRadians :: "real \<Rightarrow> real" where
  "degreesToRadians d = d * (pi / 180)"

definition calcRotateMatrix :: "fobject \<Rightarrow> matrix" where
  "calcRotateMatrix ob =
     (let theta = degreesToRadians (o_angle ob)
      in (cos theta, sin theta, - sin theta, cos theta))"

definition calcDimensionsMatrix :: "fobject \<Rightarrow> matrix" where
  "calcDimensionsMatrix ob =
     (let scaleMatrix = (if o_flipX ob then - o_scaleX ob else o_scaleX ob, 0, 0,
                         if o_flipY ob then - o_scaleY ob else o_scaleY ob);
          m1 = multiplyTransformMatrices scaleMatrix
                 (1, 0, tan (degreesToRadians (o_skewX ob)), 1)
      in multiplyTransformMatrices m1 (1, tan (degreesToRadians (o_skewY ob)), 0, 1))"

definition calcOwnMatrix :: "fobject \<Rightarrow> matrix" where
  "calcOwnMatrix ob = multiplyTransformMatrices (calcRotateMatrix ob) (calcDimensionsMatrix ob)"

definition atan2 :: "real \<Rightarrow> real \<Rightarrow> real" where
  "atan2 y x =
     (if 0 < x then arctan (y / x)
      else if x < 0 then (if 0 \<le> y then arctan (y / x) + pi else arctan (y / x) - pi)
      else if 0 < y then pi / 2 else if y < 0 then - (pi / 2) else 0)"

definition applyTransformToObject :: "matrix \<Rightarrow> fobject \<Rightarrow> fobject" where
  "applyTransformToObject m ob =
     (case m of (a, b, c, d) \<Rightarrow>
        let denom = a ^ 2 + b ^ 2;
            scaleX = sqrt denom
        in ob\<lparr> o_flipX := False, o_flipY := False,
                o_scaleX := scaleX,
                o_scaleY := (a * d - c * b) / scaleX,
                o_skewX := atan2 (a * c + b * d) denom / (pi / 180),
                o_skewY := 0,
                o_angle := atan2 b a / (pi / 180) \<rparr>)"

definition restore_member :: "selection \<Rightarrow> fobject \<Rightarrow> fobject" where
  "restore_member g ob =
     (applyTransformToObject (multiplyTransformMatrices (sel_matrix g) (calcOwnMatrix ob)) ob)
       \<lparr> o_left := fst (sel_position g ob), o_top := snd (sel_position g ob),
         o_group := False \<rparr>"

definition released :: "scene \<Rightarrow> oid \<Rightarrow> fobject" where
  "released s =
     (case activeObject s of
        ActiveSelection g \<Rightarrow>
          (\<lambda>x. if o_group (heap s x) then restore_member g (heap s x) else heap s x)
      | _ \<Rightarrow> heap s)"

definition c_discardActiveObject :: "scene \<Rightarrow> scene" where
  "c_discardActiveObject s = s\<lparr> heap := released s, activeObject := NoActive \<rparr>"

text \<open>\<^verbatim>\<open>setActiveObject\<close> releases the current selection before it takes the new one.\<close>

definition c_setActiveObject :: "oid \<Rightarrow> scene \<Rightarrow> scene" where
  "c_setActiveObject x s = (c_discardActiveObject s)\<lparr> activeObject := ActiveObject x \<rparr>"

text \<open>
  \<^verbatim>\<open>setWidth\<close> and \<^verbatim>\<open>setHeight\<close> are \<^verbatim>\<open>setDimensions\<close>: the value is assigned to
  the attribute of the canvas element (the element the component holds as
  \<^verbatim>\<open>el\<close>) and, as a length in px, to its style; then, when fabric's pixel ratio
  is above 1, both attributes of the element are set to the canvas size times that
  ratio (an attribute keeps the integer part); then a render is requested.
  \<^verbatim>\<open>setZoom\<close> sets the viewport transform, which requests a render under
  \<^verbatim>\<open>renderOnAddRemove\<close>.
\<close>

definition initRetinaScaling :: "scene \<Rightarrow> scene" where
  "initRetinaScaling s =
     (if 1 < retina s
      then s\<lparr> el_width := \<lfloor>real_of_int (c_width s) * retina s\<rfloor>,
              el_height := \<lfloor>real_of_int (c_height s) * retina s\<rfloor>,
              log := log s @ [EvElWidth \<lfloor>real_of_int (c_width s) * retina s\<rfloor>,
                              EvElHeight \<lfloor>real_of_int (c_height s) * retina s\<rfloor>] \<rparr>
      else s)"

definition c_setWidth :: "int \<Rightarrow> scene \<Rightarrow> scene" where
  "c_setWidth n s =
     c_requestRenderAll (initRetinaScaling
       (s\<lparr> el_width := n, c_width := n, style_width := n,
           log := log s @ [EvSetWidth n, EvElWidth n] \<rparr>))"

definition c_setHeight :: "int \<Rightarrow> scene \<Rightarrow> scene" where
  "c_setHeight n s =
     c_requestRenderAll (initRetinaScaling
       (s\<lparr> el_height := n, c_height := n, style_height := n,
           log := log s @ [EvSetHeight n, EvElHeight n] \<rparr>))"

definition c_setZoom :: "real \<Rightarrow> scene \<Rightarrow> scene" where
  "c_setZoom z s = render_on_change (s\<lparr> zoom := z, log := log s @ [EvSetZoom z] \<rparr>)"

definition c_toDataURL :: "scene \<Rightarrow> scene" where
  "c_toDataURL s = s\<lparr> log := log s @ [EvToDataURL] \<rparr>"

text \<open>\<^verbatim>\<open>x.set({...})\<close>: an update of the object behind a reference.\<close>

definition obj_set :: "oid \<Rightarrow> (fobject \<Rightarrow> fobject) \<Rightarrow> scene \<Rightarrow> scene" where
  "obj_set x f s = s\<lparr> heap := (heap s)(x := f (heap s x)) \<rparr>"

text \<open>\<^verbatim>\<open>new fabric.Rect(...)\<close>, \<^verbatim>\<open>new fabric.Textbox(...)\<close>: a fresh reference.\<close>

definition alloc :: "fobject \<Rightarrow> scene \<Rightarrow> oid \<times> scene" where
  "alloc ob s = (next_id s, s\<lparr> heap := (heap s)(next_id s := ob), next_id := Suc (next_id s) \<rparr>)"

text \<open>
  Text measurement is the browser's: \<open>tm fontSize text width\<close> is the width and height
  of the text block that \<^verbatim>\<open>Textbox.initDimensions\<close> computes for a text wrapped at
  \<open>width\<close> (the width grows to the longest unbreakable word). It is a parameter.
  \<open>measured\<close> is \<^verbatim>\<open>initDimensions\<close> on the object itself: it overwrites the
  width and the height and nothing else.
\<close>

type_synonym metrics = "real \<Rightarrow> string \<Rightarrow> real \<Rightarrow> real \<times> real"

definition measured :: "metrics \<Rightarrow> fobject \<Rightarrow> fobject" where
  "measured tm ob = ob\<lparr> o_width := fst (tm (o_fontSize ob) (o_text ob) (o_width ob)),
                          o_height := snd (tm (o_fontSize ob) (o_text ob) (o_width ob)) \<rparr>"

definition initDimensions :: "metrics \<Rightarrow> oid \<Rightarrow> scene \<Rightarrow> scene" where
  "initDimensions tm x s = obj_set x (measured tm) s"

text \<open>JavaScript \<^verbatim>\<open>v || 1\<close> on a number that may be missing: 0 and undefined give 1.\<close>

definition or_one :: "real option \<Rightarrow> real" where
  "or_one v = (case v of None \<Rightarrow> 1 | Some x \<Rightarrow> if x = 0 then 1 else x)"

subsection \<open>getVisibleCanvasSize, placeTextObjects, fitCanvasToWrap\<close>

definition getVisibleCanvasSize :: "scene \<Rightarrow> real \<times> real" where
  "getVisibleCanvasSize s =
     (let z = or_one (Some (zoom s))
      in (real_of_int (c_width s) / z, real_of_int (c_height s) / z))"

definition placeTextObjects :: "metrics \<Rightarrow> scene \<Rightarrow> scene" where
  "placeTextObjects tm s =
     (let cw = fst (getVisibleCanvasSize s); ch = snd (getVisibleCanvasSize s)
      in if cw = 0 \<or> ch = 0 then s
         else
           let padX = max 48 \<lfloor>cw * 0.08\<rfloor>;
               top = max 72 \<lfloor>ch * 0.18\<rfloor>;
               s1 = obj_set (title s)
                      (\<lambda>ob. ob\<lparr> o_left := real_of_int padX, o_top := real_of_int top,
                         o_width := real_of_int (min 980 \<lfloor>cw - real_of_int (padX * 2)\<rfloor>) \<rparr>) s;
               s2 = obj_set (subtitle s1)
                      (\<lambda>ob. ob\<lparr> o_left := real_of_int padX, o_top := real_of_int (top + 70),
                         o_width := real_of_int (min 900 \<lfloor>cw - real_of_int (padX * 2)\<rfloor>) \<rparr>) s1;
               s3 = initDimensions tm (title s2) s2;
               s4 = initDimensions tm (subtitle s3) s3
           in c_requestRenderAll s4)"

text \<open>
  The environment of a resize: \<^verbatim>\<open>window.devicePixelRatio\<close> and the bounding
  rectangle of the wrapper element (\<open>None\<close> when \<^verbatim>\<open>canvasWrapRef.current\<close> is
  null).
\<close>

record env =
  devicePixelRatio :: "real option"
  wrap_rect :: "(real \<times> real) option"

definition fit_dpr :: "env \<Rightarrow> real" where
  "fit_dpr e = min (or_one (devicePixelRatio e)) 2"

text \<open>
  Assignments to the canvas element: \<^verbatim>\<open>el.width = n\<close>, \<^verbatim>\<open>el.height = n\<close>
  (each reallocates the element's bitmap) and the two \<^verbatim>\<open>el.style\<close> lengths.
\<close>

definition el_set_width :: "int \<Rightarrow> scene \<Rightarrow> scene" where
  "el_set_width n s = s\<lparr> el_width := n, log := log s @ [EvElWidth n] \<rparr>"

definition el_set_height :: "int \<Rightarrow> scene \<Rightarrow> scene" where
  "el_set_height n s = s\<lparr> el_height := n, log := log s @ [EvElHeight n] \<rparr>"

definition el_set_style :: "int \<Rightarrow> int \<Rightarrow> scene \<Rightarrow> scene" where
  "el_set_style w h s = s\<lparr> style_width := w, style_height := h \<rparr>"

definition fitCanvasToWrap :: "metrics \<Rightarrow> env \<Rightarrow> scene \<Rightarrow> scene" where
  "fitCanvasToWrap tm e s =
     (case wrap_rect e of
        None \<Rightarrow> s
      | Some (rw, rh) \<Rightarrow>
          let dpr = fit_dpr e;
              wCss = max 320 \<lfloor>rw\<rfloor>;
              hCss = max 360 \<lfloor>rh\<rfloor>;
              nextWidth = \<lfloor>real_of_int wCss * dpr\<rfloor>;
              nextHeight = \<lfloor>real_of_int hCss * dpr\<rfloor>;
              s1 = (if el_width s \<noteq> nextWidth then el_set_width nextWidth s else s);
              s2 = (if el_height s1 \<noteq> nextHeight then el_set_height nextHeight s1 else s1);
              s3 = el_set_style wCss hCss s2;
              s4 = c_setWidth nextWidth s3;
              s5 = c_setHeight nextHeight s4;
              s6 = c_setZoom dpr s5;
              s7 = obj_set (bg s6)
                     (\<lambda>ob. ob\<lparr> o_left := 0, o_top := 0, o_width := real_of_int nextWidth,
                        o_height := real_of_int nextHeight \<rparr>) s6
          in placeTextObjects tm s7)"

subsection \<open>Mounting: the body of init\<close>

text \<open>
  The part of \<^verbatim>\<open>init\<close> after the fonts were awaited, for a component that was not disposed
  meanwhile: the canvas is created over the element (whose attribute size at that moment
  is \<open>(w0, h0)\<close>) in a page where fabric's pixel ratio is \<open>r\<close>, the background, title
  and subtitle are created and added (\<open>premount\<close>), the refs are assigned and the first
  fit runs.
\<close>

definition new_canvas :: "real \<Rightarrow> int \<times> int \<Rightarrow> scene" where
  "new_canvas r sz = initRetinaScaling
     \<lparr> heap = (\<lambda>_. new_object), next_id = 0, objects = [],
       c_width = fst sz, c_height = snd sz, zoom = 1, activeObject = NoActive,
       renderOnAddRemove = True, retina = r, el_width = fst sz, el_height = snd sz,
       style_width = fst sz, style_height = snd sz, bg = 0, title = 0, subtitle = 0,
       log = [] \<rparr>"

definition premount :: "bool \<Rightarrow> real \<Rightarrow> int \<times> int \<Rightarrow> scene" where
  "premount isDark r sz =
     (let c = new_canvas r sz;
          a1 = alloc (new_object\<lparr> o_left := 0, o_top := 0, o_width := 2000, o_height := 2000,
                        o_selectable := False, o_evented := False \<rparr>) c;
          s1 = obj_set (fst a1) (\<lambda>ob. ob\<lparr> o_fill := ''rgba(0,0,0,0)'' \<rparr>) (snd a1);
          s2 = c_add (fst a1) s1;
          s3 = c_sendToBack (fst a1) s2;
          s4 = s3\<lparr> bg := fst a1 \<rparr>;
          a2 = alloc (new_object\<lparr> o_text := preset_title ux, o_left := 80, o_top := 120,
                        o_width := 900, o_fontSize := 42, o_fill := title_fill isDark \<rparr>) s4;
          a3 = alloc (new_object\<lparr> o_text := preset_subtitle ux, o_left := 80, o_top := 210,
                        o_width := 860, o_fontSize := 18, o_fill := subtitle_fill isDark \<rparr>) (snd a2);
          s5 = c_add (fst a2) (snd a3);
          s6 = c_add (fst a3) s5
      in s6\<lparr> title := fst a2, subtitle := fst a3 \<rparr>)"

definition init :: "metrics \<Rightarrow> bool \<Rightarrow> real \<Rightarrow> env \<Rightarrow> int \<times> int \<Rightarrow> component \<Rightarrow> component" where
  "init tm isDark r e sz cmp =
     cmp\<lparr> refs := Some (fitCanvasToWrap tm e (premount isDark r sz)) \<rparr>"

subsection \<open>The handlers\<close>

definition applyPreset :: "metrics \<Rightarrow> PresetKey \<Rightarrow> component \<Rightarrow> component" where
  "applyPreset tm nextPreset cmp =
     (let cmp1 = cmp\<lparr> preset := nextPreset \<rparr>
      in case refs cmp1 of
           None \<Rightarrow> cmp1
         | Some s \<Rightarrow>
             let s1 = obj_set (title s) (\<lambda>ob. ob\<lparr> o_text := preset_title nextPreset \<rparr>) s;
                 s2 = obj_set (subtitle s1) (\<lambda>ob. ob\<lparr> o_text := preset_subtitle nextPreset \<rparr>) s1;
                 s3 = initDimensions tm (title s2) s2;
                 s4 = initDimensions tm (subtitle s3) s3
             in cmp1\<lparr> refs := Some (c_requestRenderAll s4) \<rparr>)"

text \<open>
  \<^verbatim>\<open>reset\<close> walks the copy returned by \<^verbatim>\<open>getObjects()\<close> and removes from the
  canvas every object that is none of the three protected references. Its last step,
  \<^verbatim>\<open>layoutRef.current?.()\<close>, is \<^verbatim>\<open>placeTextObjects\<close>: the ref holds it from
  \<^verbatim>\<open>init\<close> to the cleanup, as long as the other refs are set.
\<close>

definition reset_step :: "scene \<Rightarrow> oid \<Rightarrow> scene \<Rightarrow> scene" where
  "reset_step s0 canvasObject acc =
     (if canvasObject \<noteq> bg s0 \<and> canvasObject \<noteq> title s0 \<and> canvasObject \<noteq> subtitle s0
      then c_remove canvasObject acc else acc)"

definition reset :: "metrics \<Rightarrow> bool \<Rightarrow> component \<Rightarrow> component" where
  "reset tm isDark cmp =
     (case refs cmp of
        None \<Rightarrow> cmp
      | Some s \<Rightarrow>
          let s1 = fold (reset_step s) (c_getObjects s) s;
              s2 = obj_set (title s1)
                     (\<lambda>ob. ob\<lparr> o_text := preset_title ux, o_angle := 0, o_scaleX := 1,
                        o_scaleY := 1, o_fill := title_fill isDark \<rparr>) s1;
              s3 = obj_set (subtitle s2)
                     (\<lambda>ob. ob\<lparr> o_text := preset_subtitle ux, o_angle := 0, o_scaleX := 1,
                        o_scaleY := 1, o_fill := subtitle_fill isDark \<rparr>) s2;
              s4 = initDimensions tm (title s3) s3;
              s5 = initDimensions tm (subtitle s4) s4;
              s6 = c_discardActiveObject s5
          in \<lparr> preset = ux, refs = Some (placeTextObjects tm s6) \<rparr>)"

definition exportPNG :: "bool \<Rightarrow> component \<Rightarrow> component" where
  "exportPNG isDark cmp =
     (case refs cmp of
        None \<Rightarrow> cmp
      | Some s \<Rightarrow>
          let canvasWidth = fst (getVisibleCanvasSize s);
              canvasHeight = snd (getVisibleCanvasSize s);
              a = alloc (new_object\<lparr> o_left := 0, o_top := 0, o_width := canvasWidth,
                          o_height := canvasHeight, o_selectable := False, o_evented := False,
                          o_fill := export_fill isDark \<rparr>) s;
              exportBg = fst a;
              s1 = c_add exportBg (snd a);
              s2 = c_sendToBack exportBg s1;
              s3 = c_discardActiveObject s2;
              s4 = c_requestRenderAll s3;
              s5 = c_toDataURL s4;
              s6 = c_remove exportBg s5;
              s7 = c_requestRenderAll s6
          in cmp\<lparr> refs := Some (s7\<lparr> log := log s7 @ [EvDownload] \<rparr>) \<rparr>)"

text \<open>
  A decoded image as \<^verbatim>\<open>fabric.Image.fromURL\<close> hands it to its callback: the
  intrinsic width and height it reports, each possibly missing. A failed decode is
  \<open>None\<close> for the whole image. The two samples of \<^verbatim>\<open>Math.random()\<close> are
  arguments: \<open>rx\<close> is drawn first (for \<^verbatim>\<open>left\<close>), \<open>ry\<close> second. The callback
  runs once the image is decoded; \<open>addImageToCanvas\<close> is the handler together with its
  callback, on the scene the callback finds.
\<close>

record image =
  i_width :: "nat option"
  i_height :: "nat option"

definition image_object :: "image \<Rightarrow> fobject" where
  "image_object im = new_object\<lparr>
     o_width := (case i_width im of None \<Rightarrow> 0 | Some n \<Rightarrow> real n),
     o_height := (case i_height im of None \<Rightarrow> 0 | Some n \<Rightarrow> real n) \<rparr>"

definition randomInRange :: "real \<Rightarrow> real \<Rightarrow> real \<Rightarrow> real" where
  "randomInRange r mn mx = r * (max mn mx - mn) + mn"

definition image_scale :: "scene \<Rightarrow> image \<Rightarrow> real" where
  "image_scale s im =
     (let maxW = fst (getVisibleCanvasSize s) * 0.32;
          maxH = snd (getVisibleCanvasSize s) * 0.32;
          iw = or_one (map_option real (i_width im));
          ih = or_one (map_option real (i_height im))
      in min (min (maxW / iw) (maxH / ih)) 1)"

definition addImageToCanvas :: "image option \<Rightarrow> real \<Rightarrow> real \<Rightarrow> component \<Rightarrow> component" where
  "addImageToCanvas img rx ry cmp =
     (case refs cmp of
        None \<Rightarrow> cmp
      | Some s \<Rightarrow>
         (case img of
            None \<Rightarrow> cmp
          | Some im \<Rightarrow>
              let canvasWidth = fst (getVisibleCanvasSize s);
                  canvasHeight = snd (getVisibleCanvasSize s);
                  iw = or_one (map_option real (i_width im));
                  ih = or_one (map_option real (i_height im));
                  scale = image_scale s im;
                  renderedW = iw * scale;
                  renderedH = ih * scale;
                  margin = 24;
                  minLeft = renderedW / 2 + margin;
                  maxLeft = canvasWidth - renderedW / 2 - margin;
                  minTop = renderedH / 2 + margin;
                  maxTop = canvasHeight - renderedH / 2 - margin;
                  a = alloc (image_object im) s;
                  s1 = obj_set (fst a)
                         (\<lambda>ob. ob\<lparr> o_left := randomInRange rx minLeft maxLeft,
                            o_top := randomInRange ry minTop maxTop,
                            o_originX := ''center'', o_originY := ''center'',
                            o_scaleX := scale, o_scaleY := scale \<rparr>) (snd a);
                  s2 = c_add (fst a) s1;
                  s3 = c_bringToFront (title s2) s2;
                  s4 = c_bringToFront (subtitle s3) s3;
                  s5 = c_setActiveObject (fst a) s4
              in cmp\<lparr> refs := Some (c_requestRenderAll s5) \<rparr>))"

subsection \<open>Vocabulary of the properties\<close>

text \<open>
  A mounted scene as the handlers find it: the object list has no duplicate, the
  three protected objects are different references and are on the canvas, every
  reference in use was allocated, and the backing store is not empty.
\<close>

definition live :: "scene \<Rightarrow> bool" where
  "live s \<longleftrightarrow>
     distinct (objects s) \<and> distinct [bg s, title s, subtitle s] \<and>
     bg s \<in> set (objects s) \<and> title s \<in> set (objects s) \<and> subtitle s \<in> set (objects s) \<and>
     list_all (\<lambda>x. x < next_id s) (objects s) \<and>
     c_width s \<noteq> 0 \<and> c_height s \<noteq> 0"

text \<open>The object is a member of the active selection of several objects.\<close>

definition in_selection :: "scene \<Rightarrow> oid \<Rightarrow> bool" where
  "in_selection s x =
     (case activeObject s of ActiveSelection g \<Rightarrow> o_group (heap s x) | _ \<Rightarrow> False)"

text \<open>The events a call appended to the log.\<close>

definition new_events :: "scene \<Rightarrow> scene \<Rightarrow> event list" where
  "new_events s s' = drop (length (log s)) (log s')"

text \<open>
  \<open>render_between a b evs\<close>: \<open>a\<close> occurs, \<open>b\<close> occurs after it, and a render is
  requested after the first \<open>a\<close> and before the next \<open>b\<close>.
\<close>

definition segment_between :: "event \<Rightarrow> event \<Rightarrow> event list \<Rightarrow> event list option" where
  "segment_between a b evs =
     (let rest = dropWhile (\<lambda>ev. ev \<noteq> a) evs
      in if rest = [] \<or> b \<notin> set (tl rest) then None
         else Some (takeWhile (\<lambda>ev. ev \<noteq> b) (tl rest)))"

definition render_between :: "event \<Rightarrow> event \<Rightarrow> event list \<Rightarrow> bool" where
  "render_between a b evs =
     (case segment_between a b evs of None \<Rightarrow> False | Some seg \<Rightarrow> EvRender \<in> set seg)"

text \<open>
  The axis-aligned box of an unrotated, centre-anchored object in visible coordinates:
  \<open>(x0, x1, y0, y1)\<close>.
\<close>

definition sprite_bounds :: "fobject \<Rightarrow> real \<times> real \<times> real \<times> real" where
  "sprite_bounds ob =
     (o_left ob - o_width ob * o_scaleX ob / 2, o_left ob + o_width ob * o_scaleX ob / 2,
      o_top ob - o_height ob * o_scaleY ob / 2, o_top ob + o_height ob * o_scaleY ob / 2)"

text \<open>
  The events a handler appended, read off the component it returns (none when the refs
  are null).
\<close>

definition events_of :: "scene \<Rightarrow> component \<Rightarrow> event list" where
  "events_of s cmp = (case refs cmp of None \<Rightarrow> [] | Some s' \<Rightarrow> new_events s s')"

text \<open>
  The canonical layout of the labels for a visible size, as \<^verbatim>\<open>placeTextObjects\<close>
  computes it: the padding, the top offset and the width under a cap.
  \<open>set_geometry\<close> is \<^verbatim>\<open>x.set({ left, top, width })\<close> on the object itself.
\<close>

definition layout_padX :: "real \<times> real \<Rightarrow> int" where
  "layout_padX vis = max 48 \<lfloor>fst vis * 0.08\<rfloor>"

definition layout_top :: "real \<times> real \<Rightarrow> int" where
  "layout_top vis = max 72 \<lfloor>snd vis * 0.18\<rfloor>"

definition layout_width :: "int \<Rightarrow> real \<times> real \<Rightarrow> int" where
  "layout_width cap vis = min cap \<lfloor>fst vis - real_of_int (layout_padX vis * 2)\<rfloor>"

definition set_geometry :: "real \<Rightarrow> real \<Rightarrow> real \<Rightarrow> fobject \<Rightarrow> fobject" where
  "set_geometry l t w ob = ob\<lparr> o_left := l, o_top := t, o_width := w \<rparr>"

text \<open>The steps of a fit before the text placement, for given sizes.\<close>

definition fit_resized :: "int \<Rightarrow> int \<Rightarrow> int \<Rightarrow> int \<Rightarrow> real \<Rightarrow> scene \<Rightarrow> scene" where
  "fit_resized wCss hCss nw nh dpr s =
     (let s1 = (if el_width s \<noteq> nw then el_set_width nw s else s);
          s2 = (if el_height s1 \<noteq> nh then el_set_height nh s1 else s1);
          s6 = c_setZoom dpr (c_setHeight nh (c_setWidth nw (el_set_style wCss hCss s2)))
      in obj_set (bg s6) (\<lambda>ob. ob\<lparr> o_left := 0, o_top := 0, o_width := real_of_int nw,
                                    o_height := real_of_int nh \<rparr>) s6)"

subsection \<open>Concrete scenes\<close>

text \<open>
  A text measurement for the examples: the block keeps the wrap width and is one line
  high. \<open>demo_scene\<close> is the scene of a dark-theme component mounted in an 800 by 600
  wrapper in a page loaded at device pixel ratio 2, with an empty log; \<open>tiny_scene\<close> has
  a visible size of 50 by 50, smaller than any size the fit step produces on a real
  display. In \<open>grouped_scene\<close> the user has selected the title and the subtitle of the
  demo scene together and dragged a corner of the selection until it was twice as
  large: both labels are members of the active selection, placed relative to its centre
  \<open>(400, 152)\<close>, and the matrix of the group is a scaling by 2.
\<close>

definition tm0 :: metrics where
  "tm0 fontSize txt w = (w, fontSize)"

definition demo_scene :: scene where
  "demo_scene = \<lparr>
     heap = (\<lambda>_. new_object)
       (0 := new_object\<lparr> o_width := 1600, o_height := 1200, o_fill := ''rgba(0,0,0,0)'',
               o_selectable := False, o_evented := False \<rparr>,
        1 := new_object\<lparr> o_left := 64, o_top := 108, o_width := 672, o_height := 42,
               o_fill := title_fill True, o_text := preset_title ux, o_fontSize := 42 \<rparr>,
        2 := new_object\<lparr> o_left := 64, o_top := 178, o_width := 672, o_height := 18,
               o_fill := subtitle_fill True, o_text := preset_subtitle ux, o_fontSize := 18 \<rparr>),
     next_id = 3, objects = [0, 1, 2], c_width = 1600, c_height = 1200, zoom = 2,
     activeObject = NoActive, renderOnAddRemove = True, retina = 2, el_width = 3200,
     el_height = 2400, style_width = 1600, style_height = 1200, bg = 0, title = 1, subtitle = 2,
     log = [] \<rparr>"

definition demo :: component where
  "demo = \<lparr> preset = ux, refs = Some demo_scene \<rparr>"

definition tiny_scene :: scene where
  "tiny_scene = demo_scene\<lparr> c_width := 100, c_height := 100 \<rparr>"

definition grouped_scene :: scene where
  "grouped_scene = demo_scene\<lparr>
     heap := (heap demo_scene)
       (1 := (heap demo_scene 1)\<lparr> o_left := - 336, o_top := - 44, o_group := True \<rparr>,
        2 := (heap demo_scene 2)\<lparr> o_left := - 336, o_top := 26, o_group := True \<rparr>),
     activeObject := ActiveSelection
       \<lparr> sel_matrix = (2, 0, 0, 2),
         sel_position = (\<lambda>ob. (400 + 2 * o_left ob, 152 + 2 * o_top ob)) \<rparr> \<rparr>"

definition grouped :: component where
  "grouped = \<lparr> preset = ux, refs = Some grouped_scene \<rparr>"

definition grouped_after_reset :: scene where
  "grouped_after_reset =
     (case refs (reset tm0 True grouped) of Some s \<Rightarrow> s | None \<Rightarrow> grouped_scene)"

text \<open>
  \<open>lowdpi_scene\<close>: the component mounted in a 1600 by 1200 wrapper in a page loaded at
  device pixel ratio 1. \<open>halfdpi_scene\<close>: the component mounted in an empty wrapper in a
  page loaded at device pixel ratio 1/2 (a browser zoomed out to 50%).
\<close>

definition lowdpi_scene :: scene where
  "lowdpi_scene = fitCanvasToWrap tm0 \<lparr> devicePixelRatio = Some 1, wrap_rect = Some (1600, 1200) \<rparr>
                    (premount True 1 (300, 150))"

definition halfdpi_scene :: scene where
  "halfdpi_scene = fitCanvasToWrap tm0 \<lparr> devicePixelRatio = Some (1/2), wrap_rect = Some (0, 0) \<rparr>
                     (premount True (1/2) (300, 150))"

definition demo_env :: env where
  "demo_env = \<lparr> devicePixelRatio = Some 2, wrap_rect = Some (800, 600) \<rparr>"

section \<open>Selectors of the canvas operations\<close>

lemma c_requestRenderAll_sel [simp]:
  "heap (c_requestRenderAll s) = heap s"
  "objects (c_requestRenderAll s) = objects s"
  "next_id (c_requestRenderAll s) = next_id s"
  "bg (c_requestRenderAll s) = bg s"
  "title (c_requestRenderAll s) = title s"
  "subtitle (c_requestRenderAll s) = subtitle s"
  "c_width (c_requestRenderAll s) = c_width s"
  "c_height (c_requestRenderAll s) = c_height s"
  "zoom (c_requestRenderAll s) = zoom s"
  "renderOnAddRemove (c_requestRenderAll s) = renderOnAddRemove s"
  "retina (c_requestRenderAll s) = retina s"
  "activeObject (c_requestRenderAll s) = activeObject s"
  "el_width (c_requestRenderAll s) = el_width s"
  "el_height (c_requestRenderAll s) = el_height s"
  "style_width (c_requestRenderAll s) = style_width s"
  "style_height (c_requestRenderAll s) = style_height s"
  "log (c_requestRenderAll s) = log s @ [EvRender]"
  by (simp_all add: c_requestRenderAll_def)

lemma render_on_change_sel [simp]:
  "heap (render_on_change s) = heap s"
  "objects (render_on_change s) = objects s"
  "next_id (render_on_change s) = next_id s"
  "bg (render_on_change s) = bg s"
  "title (render_on_change s) = title s"
  "subtitle (render_on_change s) = subtitle s"
  "c_width (render_on_change s) = c_width s"
  "c_height (render_on_change s) = c_height s"
  "zoom (render_on_change s) = zoom s"
  "renderOnAddRemove (render_on_change s) = renderOnAddRemove s"
  "retina (render_on_change s) = retina s"
  "activeObject (render_on_change s) = activeObject s"
  "el_width (render_on_change s) = el_width s"
  "el_height (render_on_change s) = el_height s"
  "style_width (render_on_change s) = style_width s"
  "style_height (render_on_change s) = style_height s"
  "log (render_on_change s) = log s @ (if renderOnAddRemove s then [EvRender] else [])"
  by (simp_all add: render_on_change_def)

lemma c_add_sel [simp]:
  "heap (c_add x s) = heap s"
  "objects (c_add x s) = objects s @ [x]"
  "next_id (c_add x s) = next_id s"
  "bg (c_add x s) = bg s"
  "title (c_add x s) = title s"
  "subtitle (c_add x s) = subtitle s"
  "c_width (c_add x s) = c_width s"
  "c_height (c_add x s) = c_height s"
  "zoom (c_add x s) = zoom s"
  "renderOnAddRemove (c_add x s) = renderOnAddRemove s"
  "retina (c_add x s) = retina s"
  "activeObject (c_add x s) = activeObject s"
  "el_width (c_add x s) = el_width s"
  "el_height (c_add x s) = el_height s"
  "style_width (c_add x s) = style_width s"
  "style_height (c_add x s) = style_height s"
  "log (c_add x s) = log s @ EvAdd x # (if renderOnAddRemove s then [EvRender] else [])"
  by (simp_all add: c_add_def render_on_change_def c_requestRenderAll_def)

lemma c_remove_sel [simp]:
  "heap (c_remove x s) = heap s"
  "objects (c_remove x s) = remove1 x (objects s)"
  "next_id (c_remove x s) = next_id s"
  "bg (c_remove x s) = bg s"
  "title (c_remove x s) = title s"
  "subtitle (c_remove x s) = subtitle s"
  "c_width (c_remove x s) = c_width s"
  "c_height (c_remove x s) = c_height s"
  "zoom (c_remove x s) = zoom s"
  "renderOnAddRemove (c_remove x s) = renderOnAddRemove s"
  "retina (c_remove x s) = retina s"
  "activeObject (c_remove x s) = activeObject s"
  "el_width (c_remove x s) = el_width s"
  "el_height (c_remove x s) = el_height s"
  "style_width (c_remove x s) = style_width s"
  "style_height (c_remove x s) = style_height s"
  "log (c_remove x s) = log s @ (if x \<in> set (objects s) then EvRemove x # (if renderOnAddRemove s then [EvRender] else []) else [])"
  by (simp_all add: c_remove_def remove1_idem render_on_change_def c_requestRenderAll_def)

lemma c_sendToBack_sel [simp]:
  "heap (c_sendToBack x s) = heap s"
  "objects (c_sendToBack x s) = x # remove1 x (objects s)"
  "next_id (c_sendToBack x s) = next_id s"
  "bg (c_sendToBack x s) = bg s"
  "title (c_sendToBack x s) = title s"
  "subtitle (c_sendToBack x s) = subtitle s"
  "c_width (c_sendToBack x s) = c_width s"
  "c_height (c_sendToBack x s) = c_height s"
  "zoom (c_sendToBack x s) = zoom s"
  "renderOnAddRemove (c_sendToBack x s) = renderOnAddRemove s"
  "retina (c_sendToBack x s) = retina s"
  "activeObject (c_sendToBack x s) = activeObject s"
  "el_width (c_sendToBack x s) = el_width s"
  "el_height (c_sendToBack x s) = el_height s"
  "style_width (c_sendToBack x s) = style_width s"
  "style_height (c_sendToBack x s) = style_height s"
  "log (c_sendToBack x s) = log s @ EvSendToBack x # (if renderOnAddRemove s then [EvRender] else [])"
  by (simp_all add: c_sendToBack_def render_on_change_def c_requestRenderAll_def)

lemma c_bringToFront_sel [simp]:
  "heap (c_bringToFront x s) = heap s"
  "objects (c_bringToFront x s) = remove1 x (objects s) @ [x]"
  "next_id (c_bringToFront x s) = next_id s"
  "bg (c_bringToFront x s) = bg s"
  "title (c_bringToFront x s) = title s"
  "subtitle (c_bringToFront x s) = subtitle s"
  "c_width (c_bringToFront x s) = c_width s"
  "c_height (c_bringToFront x s) = c_height s"
  "zoom (c_bringToFront x s) = zoom s"
  "renderOnAddRemove (c_bringToFront x s) = renderOnAddRemove s"
  "retina (c_bringToFront x s) = retina s"
  "activeObject (c_bringToFront x s) = activeObject s"
  "el_width (c_bringToFront x s) = el_width s"
  "el_height (c_bringToFront x s) = el_height s"
  "style_width (c_bringToFront x s) = style_width s"
  "style_height (c_bringToFront x s) = style_height s"
  "log (c_bringToFront x s) = log s @ EvBringToFront x # (if renderOnAddRemove s then [EvRender] else [])"
  by (simp_all add: c_bringToFront_def render_on_change_def c_requestRenderAll_def)

lemma c_discardActiveObject_sel [simp]:
  "heap (c_discardActiveObject s) = released s"
  "objects (c_discardActiveObject s) = objects s"
  "next_id (c_discardActiveObject s) = next_id s"
  "bg (c_discardActiveObject s) = bg s"
  "title (c_discardActiveObject s) = title s"
  "subtitle (c_discardActiveObject s) = subtitle s"
  "c_width (c_discardActiveObject s) = c_width s"
  "c_height (c_discardActiveObject s) = c_height s"
  "zoom (c_discardActiveObject s) = zoom s"
  "renderOnAddRemove (c_discardActiveObject s) = renderOnAddRemove s"
  "retina (c_discardActiveObject s) = retina s"
  "activeObject (c_discardActiveObject s) = NoActive"
  "el_width (c_discardActiveObject s) = el_width s"
  "el_height (c_discardActiveObject s) = el_height s"
  "style_width (c_discardActiveObject s) = style_width s"
  "style_height (c_discardActiveObject s) = style_height s"
  "log (c_discardActiveObject s) = log s"
  by (simp_all add: c_discardActiveObject_def)

lemma c_setActiveObject_sel [simp]:
  "heap (c_setActiveObject x s) = released s"
  "objects (c_setActiveObject x s) = objects s"
  "next_id (c_setActiveObject x s) = next_id s"
  "bg (c_setActiveObject x s) = bg s"
  "title (c_setActiveObject x s) = title s"
  "subtitle (c_setActiveObject x s) = subtitle s"
  "c_width (c_setActiveObject x s) = c_width s"
  "c_height (c_setActiveObject x s) = c_height s"
  "zoom (c_setActiveObject x s) = zoom s"
  "renderOnAddRemove (c_setActiveObject x s) = renderOnAddRemove s"
  "retina (c_setActiveObject x s) = retina s"
  "activeObject (c_setActiveObject x s) = ActiveObject x"
  "el_width (c_setActiveObject x s) = el_width s"
  "el_height (c_setActiveObject x s) = el_height s"
  "style_width (c_setActiveObject x s) = style_width s"
  "style_height (c_setActiveObject x s) = style_height s"
  "log (c_setActiveObject x s) = log s"
  by (simp_all add: c_setActiveObject_def c_discardActiveObject_def)

lemma c_toDataURL_sel [simp]:
  "heap (c_toDataURL s) = heap s"
  "objects (c_toDataURL s) = objects s"
  "next_id (c_toDataURL s) = next_id s"
  "bg (c_toDataURL s) = bg s"
  "title (c_toDataURL s) = title s"
  "subtitle (c_toDataURL s) = subtitle s"
  "c_width (c_toDataURL s) = c_width s"
  "c_height (c_toDataURL s) = c_height s"
  "zoom (c_toDataURL s) = zoom s"
  "renderOnAddRemove (c_toDataURL s) = renderOnAddRemove s"
  "retina (c_toDataURL s) = retina s"
  "activeObject (c_toDataURL s) = activeObject s"
  "el_width (c_toDataURL s) = el_width s"
  "el_height (c_toDataURL s) = el_height s"
  "style_width (c_toDataURL s) = style_width s"
  "style_height (c_toDataURL s) = style_height s"
  "log (c_toDataURL s) = log s @ [EvToDataURL]"
  by (simp_all add: c_toDataURL_def)

lemma initRetinaScaling_sel [simp]:
  "heap (initRetinaScaling s) = heap s"
  "objects (initRetinaScaling s) = objects s"
  "next_id (initRetinaScaling s) = next_id s"
  "bg (initRetinaScaling s) = bg s"
  "title (initRetinaScaling s) = title s"
  "subtitle (initRetinaScaling s) = subtitle s"
  "c_width (initRetinaScaling s) = c_width s"
  "c_height (initRetinaScaling s) = c_height s"
  "zoom (initRetinaScaling s) = zoom s"
  "renderOnAddRemove (initRetinaScaling s) = renderOnAddRemove s"
  "retina (initRetinaScaling s) = retina s"
  "activeObject (initRetinaScaling s) = activeObject s"
  "el_width (initRetinaScaling s) = (if 1 < retina s then \<lfloor>real_of_int (c_width s) * retina s\<rfloor> else el_width s)"
  "el_height (initRetinaScaling s) = (if 1 < retina s then \<lfloor>real_of_int (c_height s) * retina s\<rfloor> else el_height s)"
  "style_width (initRetinaScaling s) = style_width s"
  "style_height (initRetinaScaling s) = style_height s"
  "log (initRetinaScaling s) = log s @ (if 1 < retina s then [EvElWidth \<lfloor>real_of_int (c_width s) * retina s\<rfloor>, EvElHeight \<lfloor>real_of_int (c_height s) * retina s\<rfloor>] else [])"
  by (simp_all add: initRetinaScaling_def)

lemma c_setWidth_sel [simp]:
  "heap (c_setWidth n s) = heap s"
  "objects (c_setWidth n s) = objects s"
  "next_id (c_setWidth n s) = next_id s"
  "bg (c_setWidth n s) = bg s"
  "title (c_setWidth n s) = title s"
  "subtitle (c_setWidth n s) = subtitle s"
  "c_width (c_setWidth n s) = n"
  "c_height (c_setWidth n s) = c_height s"
  "zoom (c_setWidth n s) = zoom s"
  "renderOnAddRemove (c_setWidth n s) = renderOnAddRemove s"
  "retina (c_setWidth n s) = retina s"
  "activeObject (c_setWidth n s) = activeObject s"
  "el_width (c_setWidth n s) = (if 1 < retina s then \<lfloor>real_of_int n * retina s\<rfloor> else n)"
  "el_height (c_setWidth n s) = (if 1 < retina s then \<lfloor>real_of_int (c_height s) * retina s\<rfloor> else el_height s)"
  "style_width (c_setWidth n s) = n"
  "style_height (c_setWidth n s) = style_height s"
  "log (c_setWidth n s) = log s @ [EvSetWidth n, EvElWidth n] @ (if 1 < retina s then [EvElWidth \<lfloor>real_of_int n * retina s\<rfloor>, EvElHeight \<lfloor>real_of_int (c_height s) * retina s\<rfloor>] else []) @ [EvRender]"
  by (simp_all add: c_setWidth_def initRetinaScaling_def c_requestRenderAll_def)

lemma c_setHeight_sel [simp]:
  "heap (c_setHeight n s) = heap s"
  "objects (c_setHeight n s) = objects s"
  "next_id (c_setHeight n s) = next_id s"
  "bg (c_setHeight n s) = bg s"
  "title (c_setHeight n s) = title s"
  "subtitle (c_setHeight n s) = subtitle s"
  "c_width (c_setHeight n s) = c_width s"
  "c_height (c_setHeight n s) = n"
  "zoom (c_setHeight n s) = zoom s"
  "renderOnAddRemove (c_setHeight n s) = renderOnAddRemove s"
  "retina (c_setHeight n s) = retina s"
  "activeObject (c_setHeight n s) = activeObject s"
  "el_width (c_setHeight n s) = (if 1 < retina s then \<lfloor>real_of_int (c_width s) * retina s\<rfloor> else el_width s)"
  "el_height (c_setHeight n s) = (if 1 < retina s then \<lfloor>real_of_int n * retina s\<rfloor> else n)"
  "style_width (c_setHeight n s) = style_width s"
  "style_height (c_setHeight n s) = n"
  "log (c_setHeight n s) = log s @ [EvSetHeight n, EvElHeight n] @ (if 1 < retina s then [EvElWidth \<lfloor>real_of_int (c_width s) * retina s\<rfloor>, EvElHeight \<lfloor>real_of_int n * retina s\<rfloor>] else []) @ [EvRender]"
  by (simp_all add: c_setHeight_def initRetinaScaling_def c_requestRenderAll_def)

lemma c_setZoom_sel [simp]:
  "heap (c_setZoom z s) = heap s"
  "objects (c_setZoom z s) = objects s"
  "next_id (c_setZoom z s) = next_id s"
  "bg (c_setZoom z s) = bg s"
  "title (c_setZoom z s) = title s"
  "subtitle (c_setZoom z s) = subtitle s"
  "c_width (c_setZoom z s) = c_width s"
  "c_height (c_setZoom z s) = c_height s"
  "zoom (c_setZoom z s) = z"
  "renderOnAddRemove (c_setZoom z s) = renderOnAddRemove s"
  "retina (c_setZoom z s) = retina s"
  "activeObject (c_setZoom z s) = activeObject s"
  "el_width (c_setZoom z s) = el_width s"
  "el_height (c_setZoom z s) = el_height s"
  "style_width (c_setZoom z s) = style_width s"
  "style_height (c_setZoom z s) = style_height s"
  "log (c_setZoom z s) = log s @ EvSetZoom z # (if renderOnAddRemove s then [EvRender] else [])"
  by (simp_all add: c_setZoom_def render_on_change_def c_requestRenderAll_def)

lemma obj_set_sel [simp]:
  "heap (obj_set x f s) = (heap s)(x := f (heap s x))"
  "objects (obj_set x f s) = objects s"
  "next_id (obj_set x f s) = next_id s"
  "bg (obj_set x f s) = bg s"
  "title (obj_set x f s) = title s"
  "subtitle (obj_set x f s) = subtitle s"
  "c_width (obj_set x f s) = c_width s"
  "c_height (obj_set x f s) = c_height s"
  "zoom (obj_set x f s) = zoom s"
  "renderOnAddRemove (obj_set x f s) = renderOnAddRemove s"
  "retina (obj_set x f s) = retina s"
  "activeObject (obj_set x f s) = activeObject s"
  "el_width (obj_set x f s) = el_width s"
  "el_height (obj_set x f s) = el_height s"
  "style_width (obj_set x f s) = style_width s"
  "style_height (obj_set x f s) = style_height s"
  "log (obj_set x f s) = log s"
  by (simp_all add: obj_set_def)

lemma initDimensions_sel [simp]:
  "heap (initDimensions tm x s) = (heap s)(x := measured tm (heap s x))"
  "objects (initDimensions tm x s) = objects s"
  "next_id (initDimensions tm x s) = next_id s"
  "bg (initDimensions tm x s) = bg s"
  "title (initDimensions tm x s) = title s"
  "subtitle (initDimensions tm x s) = subtitle s"
  "c_width (initDimensions tm x s) = c_width s"
  "c_height (initDimensions tm x s) = c_height s"
  "zoom (initDimensions tm x s) = zoom s"
  "renderOnAddRemove (initDimensions tm x s) = renderOnAddRemove s"
  "retina (initDimensions tm x s) = retina s"
  "activeObject (initDimensions tm x s) = activeObject s"
  "el_width (initDimensions tm x s) = el_width s"
  "el_height (initDimensions tm x s) = el_height s"
  "style_width (initDimensions tm x s) = style_width s"
  "style_height (initDimensions tm x s) = style_height s"
  "log (initDimensions tm x s) = log s"
  by (simp_all add: initDimensions_def obj_set_def)

lemma el_set_width_sel [simp]:
  "heap (el_set_width n s) = heap s"
  "objects (el_set_width n s) = objects s"
  "next_id (el_set_width n s) = next_id s"
  "bg (el_set_width n s) = bg s"
  "title (el_set_width n s) = title s"
  "subtitle (el_set_width n s) = subtitle s"
  "c_width (el_set_width n s) = c_width s"
  "c_height (el_set_width n s) = c_height s"
  "zoom (el_set_width n s) = zoom s"
  "renderOnAddRemove (el_set_width n s) = renderOnAddRemove s"
  "retina (el_set_width n s) = retina s"
  "activeObject (el_set_width n s) = activeObject s"
  "el_width (el_set_width n s) = n"
  "el_height (el_set_width n s) = el_height s"
  "style_width (el_set_width n s) = style_width s"
  "style_height (el_set_width n s) = style_height s"
  "log (el_set_width n s) = log s @ [EvElWidth n]"
  by (simp_all add: el_set_width_def)

lemma el_set_height_sel [simp]:
  "heap (el_set_height n s) = heap s"
  "objects (el_set_height n s) = objects s"
  "next_id (el_set_height n s) = next_id s"
  "bg (el_set_height n s) = bg s"
  "title (el_set_height n s) = title s"
  "subtitle (el_set_height n s) = subtitle s"
  "c_width (el_set_height n s) = c_width s"
  "c_height (el_set_height n s) = c_height s"
  "zoom (el_set_height n s) = zoom s"
  "renderOnAddRemove (el_set_height n s) = renderOnAddRemove s"
  "retina (el_set_height n s) = retina s"
  "activeObject (el_set_height n s) = activeObject s"
  "el_width (el_set_height n s) = el_width s"
  "el_height (el_set_height n s) = n"
  "style_width (el_set_height n s) = style_width s"
  "style_height (el_set_height n s) = style_height s"
  "log (el_set_height n s) = log s @ [EvElHeight n]"
  by (simp_all add: el_set_height_def)

lemma el_set_style_sel [simp]:
  "heap (el_set_style w h s) = heap s"
  "objects (el_set_style w h s) = objects s"
  "next_id (el_set_style w h s) = next_id s"
  "bg (el_set_style w h s) = bg s"
  "title (el_set_style w h s) = title s"
  "subtitle (el_set_style w h s) = subtitle s"
  "c_width (el_set_style w h s) = c_width s"
  "c_height (el_set_style w h s) = c_height s"
  "zoom (el_set_style w h s) = zoom s"
  "renderOnAddRemove (el_set_style w h s) = renderOnAddRemove s"
  "retina (el_set_style w h s) = retina s"
  "activeObject (el_set_style w h s) = activeObject s"
  "el_width (el_set_style w h s) = el_width s"
  "el_height (el_set_style w h s) = el_height s"
  "style_width (el_set_style w h s) = w"
  "style_height (el_set_style w h s) = h"
  "log (el_set_style w h s) = log s"
  by (simp_all add: el_set_style_def)

lemma alloc_sel [simp]:
  "fst (alloc ob s) = next_id s"
  "heap (snd (alloc ob s)) = (heap s)(next_id s := ob)"
  "objects (snd (alloc ob s)) = objects s"
  "next_id (snd (alloc ob s)) = Suc (next_id s)"
  "bg (snd (alloc ob s)) = bg s"
  "title (snd (alloc ob s)) = title s"
  "subtitle (snd (alloc ob s)) = subtitle s"
  "c_width (snd (alloc ob s)) = c_width s"
  "c_height (snd (alloc ob s)) = c_height s"
  "zoom (snd (alloc ob s)) = zoom s"
  "renderOnAddRemove (snd (alloc ob s)) = renderOnAddRemove s"
  "retina (snd (alloc ob s)) = retina s"
  "activeObject (snd (alloc ob s)) = activeObject s"
  "el_width (snd (alloc ob s)) = el_width s"
  "el_height (snd (alloc ob s)) = el_height s"
  "style_width (snd (alloc ob s)) = style_width s"
  "style_height (snd (alloc ob s)) = style_height s"
  "log (snd (alloc ob s)) = log s"
  by (simp_all add: alloc_def)

text \<open>Releasing the selection changes its members only.\<close>

lemma released_other: "\<not> o_group (heap s x) \<Longrightarrow> released s x = heap s x"
  by (simp add: released_def split: active.splits)

lemma released_not_in_selection: "\<not> in_selection s x \<Longrightarrow> released s x = heap s x"
  by (auto simp add: released_def in_selection_def split: active.splits)

lemma released_member:
  "activeObject s = ActiveSelection g \<Longrightarrow> o_group (heap s x) \<Longrightarrow>
   released s x = restore_member g (heap s x)"
  by (simp add: released_def)

section \<open>The concrete scenes\<close>

lemma demo_scene_sel [simp]:
  "next_id demo_scene = 3" "objects demo_scene = [0, 1, 2]" "c_width demo_scene = 1600"
  "c_height demo_scene = 1200" "zoom demo_scene = 2" "bg demo_scene = 0" "title demo_scene = 1"
  "subtitle demo_scene = 2" "log demo_scene = []" "el_width demo_scene = 3200"
  "el_height demo_scene = 2400" "renderOnAddRemove demo_scene = True" "refs demo = Some demo_scene"
  "preset demo = ux" "retina demo_scene = 2" "activeObject demo_scene = NoActive"
  "style_width demo_scene = 1600" "style_height demo_scene = 1200"
  by (simp_all add: demo_scene_def demo_def)

lemma demo_visible [simp]: "getVisibleCanvasSize demo_scene = (800, 600)"
  by (simp add: getVisibleCanvasSize_def or_one_def)

lemma tiny_visible [simp]: "getVisibleCanvasSize tiny_scene = (50, 50)"
  by (simp add: getVisibleCanvasSize_def or_one_def tiny_scene_def demo_scene_def)

lemma tiny_next_id [simp]: "next_id tiny_scene = 3"
  by (simp add: tiny_scene_def)

section \<open>Image placement\<close>

text \<open>The sprite that \<^verbatim>\<open>addImageToCanvas\<close> creates, and the new stacking order.\<close>

lemma addImage_sprite:
  assumes "refs cmp = Some s"
  shows "\<exists>s'. refs (addImageToCanvas (Some im) rx ry cmp) = Some s' \<and>
    heap s' (next_id s) = (image_object im)\<lparr>
       o_left := randomInRange rx
          (or_one (map_option real (i_width im)) * image_scale s im / 2 + 24)
          (fst (getVisibleCanvasSize s) - or_one (map_option real (i_width im)) * image_scale s im / 2 - 24),
       o_top := randomInRange ry
          (or_one (map_option real (i_height im)) * image_scale s im / 2 + 24)
          (snd (getVisibleCanvasSize s) - or_one (map_option real (i_height im)) * image_scale s im / 2 - 24),
       o_originX := ''center'', o_originY := ''center'',
       o_scaleX := image_scale s im, o_scaleY := image_scale s im \<rparr> \<and>
    objects s' = remove1 (subtitle s) (remove1 (title s) (objects s @ [next_id s]) @ [title s]) @ [subtitle s] \<and>
    getVisibleCanvasSize s' = getVisibleCanvasSize s"
  using assms
  by (simp add: addImageToCanvas_def Let_def getVisibleCanvasSize_def released_other
      image_object_def new_object_def)


lemma or_one_pos: "0 < or_one (map_option real d)"
  by (cases d) (auto simp: or_one_def)

lemma or_one_ge: "(case d of None \<Rightarrow> 0 | Some n \<Rightarrow> real n) \<le> or_one (map_option real d)"
  by (cases d) (auto simp: or_one_def)

lemma or_one_nat:
  "or_one (map_option real d) = (case d of None \<Rightarrow> 1 | Some n \<Rightarrow> if n = 0 then 1 else real n)"
  by (cases d) (auto simp: or_one_def)

lemma randomInRange_lower: "0 \<le> r \<Longrightarrow> mn \<le> randomInRange r mn mx"
  by (simp add: randomInRange_def)

lemma randomInRange_upper:
  assumes "0 \<le> r" "r \<le> 1"
  shows "randomInRange r mn mx \<le> max mn mx"
proof -
  have "r * (max mn mx - mn) \<le> 1 * (max mn mx - mn)"
    using assms by (intro mult_right_mono) auto
  then show ?thesis by (simp add: randomInRange_def)
qed

lemma randomInRange_collapse: "mx \<le> mn \<Longrightarrow> randomInRange r mn mx = mn"
  by (simp add: randomInRange_def max_def)

lemma image_scale_le_1: "image_scale s im \<le> 1"
  by (simp add: image_scale_def Let_def)

lemma image_scale_pos:
  assumes "0 < fst (getVisibleCanvasSize s)" "0 < snd (getVisibleCanvasSize s)"
  shows "0 < image_scale s im"
  using assms or_one_pos [of "i_width im"] or_one_pos [of "i_height im"]
  by (simp add: image_scale_def Let_def)

lemma image_scale_width:
  "or_one (map_option real (i_width im)) * image_scale s im \<le> fst (getVisibleCanvasSize s) * 0.32"
proof -
  let ?iw = "or_one (map_option real (i_width im))"
  have pos: "0 < ?iw" by (rule or_one_pos)
  have "image_scale s im \<le> fst (getVisibleCanvasSize s) * 0.32 / ?iw"
    by (simp add: image_scale_def Let_def)
  then show ?thesis using pos by (simp add: pos_le_divide_eq mult.commute)
qed

lemma image_scale_height:
  "or_one (map_option real (i_height im)) * image_scale s im \<le> snd (getVisibleCanvasSize s) * 0.32"
proof -
  let ?ih = "or_one (map_option real (i_height im))"
  have pos: "0 < ?ih" by (rule or_one_pos)
  have "image_scale s im \<le> snd (getVisibleCanvasSize s) * 0.32 / ?ih"
    by (simp add: image_scale_def Let_def)
  then show ?thesis using pos by (simp add: pos_le_divide_eq mult.commute)
qed

text \<open>One axis of the placement: extent \<open>w\<close> of the object, extent \<open>rw\<close> used for the range.\<close>

lemma axis_inside:
  fixes cw :: real
  assumes r: "0 \<le> r" "r \<le> 1" and w: "0 \<le> w" "w \<le> rw" and fit: "rw + 48 \<le> cw"
  shows "24 \<le> randomInRange r (rw / 2 + 24) (cw - rw / 2 - 24) - w / 2"
    and "randomInRange r (rw / 2 + 24) (cw - rw / 2 - 24) + w / 2 \<le> cw - 24"
proof -
  let ?p = "randomInRange r (rw / 2 + 24) (cw - rw / 2 - 24)"
  have lo: "rw / 2 + 24 \<le> ?p" using r by (intro randomInRange_lower)
  have "?p \<le> max (rw / 2 + 24) (cw - rw / 2 - 24)" using r by (intro randomInRange_upper)
  moreover have "max (rw / 2 + 24) (cw - rw / 2 - 24) = cw - rw / 2 - 24" using fit by simp
  ultimately have hi: "?p \<le> cw - rw / 2 - 24" by simp
  show "24 \<le> ?p - w / 2" using lo w by simp
  show "?p + w / 2 \<le> cw - 24" using hi w by simp
qed

lemma in_set_move_last: "x \<in> set xs \<Longrightarrow> x \<in> set (remove1 a xs @ [a])"
  by (cases "x = a") auto

text \<open>
  Claim C1. For every visible canvas size of at least 320 by 360, every decoded image
  (whatever intrinsic size it reports) and every pair of random samples in \<open>[0, 1)\<close>,
  the sprite that \<^verbatim>\<open>addImageToCanvas\<close> inserts is on the canvas, unrotated and
  centre-anchored, and its axis-aligned box lies inside the viewport shrunk by the
  24-unit margin on each side; so it lies inside
  \<open>[0, visibleWidth] \<times> [0, visibleHeight]\<close>. At these sizes the scaled sprite plus
  margins always fits.
\<close>

theorem sprite_inside_viewport:
  assumes live: "refs cmp = Some s"
    and size: "320 \<le> fst (getVisibleCanvasSize s)" "360 \<le> snd (getVisibleCanvasSize s)"
    and rx: "0 \<le> rx" "rx < 1" and ry: "0 \<le> ry" "ry < 1"
  shows "\<exists>s'. refs (addImageToCanvas (Some im) rx ry cmp) = Some s' \<and>
           next_id s \<in> set (objects s') \<and>
           getVisibleCanvasSize s' = getVisibleCanvasSize s \<and>
           o_angle (heap s' (next_id s)) = 0 \<and>
           o_originX (heap s' (next_id s)) = ''center'' \<and>
           o_originY (heap s' (next_id s)) = ''center'' \<and>
           (case sprite_bounds (heap s' (next_id s)) of (x0, x1, y0, y1) \<Rightarrow>
              24 \<le> x0 \<and> x0 \<le> x1 \<and> x1 \<le> fst (getVisibleCanvasSize s) - 24 \<and>
              24 \<le> y0 \<and> y0 \<le> y1 \<and> y1 \<le> snd (getVisibleCanvasSize s) - 24)"
proof -
  let ?cw = "fst (getVisibleCanvasSize s)" and ?ch = "snd (getVisibleCanvasSize s)"
  let ?iw = "or_one (map_option real (i_width im))"
  let ?ih = "or_one (map_option real (i_height im))"
  let ?sc = "image_scale s im"
  let ?w = "(case i_width im of None \<Rightarrow> 0 | Some n \<Rightarrow> real n) * ?sc"
  let ?h = "(case i_height im of None \<Rightarrow> 0 | Some n \<Rightarrow> real n) * ?sc"
  from addImage_sprite [OF live, of im rx ry] obtain s' where
    s': "refs (addImageToCanvas (Some im) rx ry cmp) = Some s'"
    and ob: "heap s' (next_id s) = (image_object im)\<lparr>
       o_left := randomInRange rx (?iw * ?sc / 2 + 24) (?cw - ?iw * ?sc / 2 - 24),
       o_top := randomInRange ry (?ih * ?sc / 2 + 24) (?ch - ?ih * ?sc / 2 - 24),
       o_originX := ''center'', o_originY := ''center'',
       o_scaleX := ?sc, o_scaleY := ?sc \<rparr>"
    and objs: "objects s' = remove1 (subtitle s) (remove1 (title s) (objects s @ [next_id s]) @ [title s]) @ [subtitle s]"
    and vis: "getVisibleCanvasSize s' = getVisibleCanvasSize s"
    by blast
  have sc: "0 < ?sc" using size by (intro image_scale_pos) auto
  have w0: "0 \<le> ?w" using sc by (cases "i_width im") auto
  have h0: "0 \<le> ?h" using sc by (cases "i_height im") auto
  have w1: "?w \<le> ?iw * ?sc" using sc or_one_ge [of "i_width im"] by (intro mult_right_mono) auto
  have h1: "?h \<le> ?ih * ?sc" using sc or_one_ge [of "i_height im"] by (intro mult_right_mono) auto
  have wfit: "?iw * ?sc + 48 \<le> ?cw" using image_scale_width [of im s] size by simp
  have hfit: "?ih * ?sc + 48 \<le> ?ch" using image_scale_height [of im s] size by simp
  have rx': "rx \<le> 1" and ry': "ry \<le> 1" using rx ry by simp_all
  note X = axis_inside [OF rx(1) rx' w0 w1 wfit]
  note Y = axis_inside [OF ry(1) ry' h0 h1 hfit]
  have mem: "next_id s \<in> set (objects s')"
    unfolding objs by (intro in_set_move_last) simp
  have box: "(case sprite_bounds (heap s' (next_id s)) of (x0, x1, y0, y1) \<Rightarrow>
              24 \<le> x0 \<and> x0 \<le> x1 \<and> x1 \<le> ?cw - 24 \<and> 24 \<le> y0 \<and> y0 \<le> y1 \<and> y1 \<le> ?ch - 24)"
    using X Y w0 h0 by (simp add: ob sprite_bounds_def image_object_def)
  have attrs: "o_angle (heap s' (next_id s)) = 0" "o_originX (heap s' (next_id s)) = ''center''"
      "o_originY (heap s' (next_id s)) = ''center''"
    by (simp_all add: ob image_object_def new_object_def)
  show ?thesis
    by (rule exI [where x = s'], intro conjI) (rule s' mem vis attrs box)+
qed


theorem sprite_inside_viewport_witness:
  "320 \<le> fst (getVisibleCanvasSize demo_scene) \<and> 360 \<le> snd (getVisibleCanvasSize demo_scene) \<and>
   (\<exists>s'. refs (addImageToCanvas (Some \<lparr> i_width = Some 4000, i_height = Some 3000 \<rparr>) (1/2) (3/4) demo)
            = Some s' \<and>
      3 \<in> set (objects s') \<and>
      (case sprite_bounds (heap s' 3) of (x0, x1, y0, y1) \<Rightarrow>
         24 \<le> x0 \<and> x0 \<le> x1 \<and> x1 \<le> 800 - 24 \<and> 24 \<le> y0 \<and> y0 \<le> y1 \<and> y1 \<le> 600 - 24))"
  using sprite_inside_viewport [of demo demo_scene "1/2" "3/4" "\<lparr> i_width = Some 4000, i_height = Some 3000 \<rparr>"]
  by auto

text \<open>
  Claim C9. In the random placement of \<^verbatim>\<open>addImageToCanvas\<close>, the coordinate on
  each axis is \<^verbatim>\<open>randomInRange\<close> of the lower bound \<open>halfExtent + 24\<close> and the
  upper bound \<open>visibleDimension - halfExtent - 24\<close>. Where the lower bound exceeds
  the upper one, the coordinate is the larger of the two bounds, whatever the sample;
  for a sample in \<open>[0, 1)\<close> the coordinate is never below the lower bound and never
  above the larger bound. The function is total: it returns for every image and
  viewport size.
\<close>

theorem placement_range_collapses:
  assumes "refs cmp = Some s"
  shows "\<exists>s'. refs (addImageToCanvas (Some im) rx ry cmp) = Some s' \<and>
    (let hw = or_one (map_option real (i_width im)) * image_scale s im / 2;
         hh = or_one (map_option real (i_height im)) * image_scale s im / 2;
         minLeft = hw + 24; maxLeft = fst (getVisibleCanvasSize s) - hw - 24;
         minTop = hh + 24; maxTop = snd (getVisibleCanvasSize s) - hh - 24;
         left = o_left (heap s' (next_id s)); top = o_top (heap s' (next_id s))
     in left = randomInRange rx minLeft maxLeft \<and> top = randomInRange ry minTop maxTop \<and>
        (maxLeft < minLeft \<longrightarrow> left = max minLeft maxLeft) \<and>
        (maxTop < minTop \<longrightarrow> top = max minTop maxTop) \<and>
        (0 \<le> rx \<and> rx < 1 \<longrightarrow> minLeft \<le> left \<and> left \<le> max minLeft maxLeft) \<and>
        (0 \<le> ry \<and> ry < 1 \<longrightarrow> minTop \<le> top \<and> top \<le> max minTop maxTop))"
proof -
  from addImage_sprite [OF assms, of im rx ry] obtain s' where
    s': "refs (addImageToCanvas (Some im) rx ry cmp) = Some s'"
    and ob: "heap s' (next_id s) = (image_object im)\<lparr>
       o_left := randomInRange rx
          (or_one (map_option real (i_width im)) * image_scale s im / 2 + 24)
          (fst (getVisibleCanvasSize s) - or_one (map_option real (i_width im)) * image_scale s im / 2 - 24),
       o_top := randomInRange ry
          (or_one (map_option real (i_height im)) * image_scale s im / 2 + 24)
          (snd (getVisibleCanvasSize s) - or_one (map_option real (i_height im)) * image_scale s im / 2 - 24),
       o_originX := ''center'', o_originY := ''center'',
       o_scaleX := image_scale s im, o_scaleY := image_scale s im \<rparr>"
    by blast
  have col: "\<And>r mn mx :: real. mx < mn \<Longrightarrow> randomInRange r mn mx = max mn mx"
    by (simp add: randomInRange_collapse max_def)
  have rng: "\<And>r mn mx :: real. 0 \<le> r \<and> r < 1 \<Longrightarrow>
      mn \<le> randomInRange r mn mx \<and> randomInRange r mn mx \<le> max mn mx"
    by (simp add: randomInRange_lower randomInRange_upper)
  have l: "o_left (heap s' (next_id s)) = randomInRange rx
          (or_one (map_option real (i_width im)) * image_scale s im / 2 + 24)
          (fst (getVisibleCanvasSize s) - or_one (map_option real (i_width im)) * image_scale s im / 2 - 24)"
    by (simp add: ob)
  have t: "o_top (heap s' (next_id s)) = randomInRange ry
          (or_one (map_option real (i_height im)) * image_scale s im / 2 + 24)
          (snd (getVisibleCanvasSize s) - or_one (map_option real (i_height im)) * image_scale s im / 2 - 24)"
    by (simp add: ob)
  show ?thesis
    by (rule exI [where x = s'], rule conjI [OF s'], simp only: Let_def l t)
       (use col rng in blast)
qed

theorem placement_range_collapses_witness:
  "\<exists>s'. refs (addImageToCanvas (Some \<lparr> i_width = Some 100, i_height = Some 100 \<rparr>) (1/2) (1/4)
              \<lparr> preset = ux, refs = Some tiny_scene \<rparr>) = Some s' \<and>
     (18::real) < 32 \<and> 0 \<le> (1/2::real) \<and> (1/2::real) < 1 \<and>
     o_left (heap s' 3) = 32 \<and> o_top (heap s' 3) = 32"
  using placement_range_collapses [of "\<lparr> preset = ux, refs = Some tiny_scene \<rparr>" tiny_scene
     "\<lparr> i_width = Some 100, i_height = Some 100 \<rparr>" "1/2" "1/4"]
  by (auto simp add: Let_def image_scale_def or_one_def randomInRange_def)

text \<open>
  Claim C10. A missing or zero intrinsic width or height is replaced by 1 before the
  uniform scale \<open>min(maxW / iw, maxH / ih, 1)\<close> is computed, so both divisors are
  positive; on a canvas of positive visible size the scale given to the sprite is
  positive and at most 1.
\<close>

theorem image_scale_never_divides_by_zero:
  assumes "refs cmp = Some s"
    and "0 < fst (getVisibleCanvasSize s)" "0 < snd (getVisibleCanvasSize s)"
  shows "\<exists>s'. refs (addImageToCanvas (Some im) rx ry cmp) = Some s' \<and>
    (let iw = (case i_width im of None \<Rightarrow> 1 | Some n \<Rightarrow> if n = 0 then 1 else real n);
         ih = (case i_height im of None \<Rightarrow> 1 | Some n \<Rightarrow> if n = 0 then 1 else real n);
         scale = min (min (fst (getVisibleCanvasSize s) * 0.32 / iw)
                          (snd (getVisibleCanvasSize s) * 0.32 / ih)) 1
     in 0 < iw \<and> 0 < ih \<and> 0 < scale \<and> scale \<le> 1 \<and>
        o_scaleX (heap s' (next_id s)) = scale \<and> o_scaleY (heap s' (next_id s)) = scale)"
proof -
  from addImage_sprite [OF assms(1), of im rx ry] obtain s' where
    s': "refs (addImageToCanvas (Some im) rx ry cmp) = Some s'"
    and sx: "o_scaleX (heap s' (next_id s)) = image_scale s im"
    and sy: "o_scaleY (heap s' (next_id s)) = image_scale s im"
    by auto
  let ?iw = "case i_width im of None \<Rightarrow> 1 | Some n \<Rightarrow> if n = 0 then 1 else real n"
  let ?ih = "case i_height im of None \<Rightarrow> 1 | Some n \<Rightarrow> if n = 0 then 1 else real n"
  have iw: "0 < ?iw" using or_one_pos [of "i_width im"] by (simp only: or_one_nat)
  have ih: "0 < ?ih" using or_one_pos [of "i_height im"] by (simp only: or_one_nat)
  have eq: "image_scale s im = min (min (fst (getVisibleCanvasSize s) * 0.32 / ?iw)
                          (snd (getVisibleCanvasSize s) * 0.32 / ?ih)) 1"
    by (simp only: image_scale_def Let_def or_one_nat)
  have pos: "0 < image_scale s im" using assms(2,3) by (rule image_scale_pos)
  have le: "image_scale s im \<le> 1" by (rule image_scale_le_1)
  show ?thesis
    apply (rule exI [where x = s'], rule conjI [OF s'])
    apply (simp only: Let_def sx sy)
    apply (intro conjI iw ih)
    using pos le eq apply simp_all
    done
qed

theorem image_scale_never_divides_by_zero_witness:
  "0 < fst (getVisibleCanvasSize demo_scene) \<and> 0 < snd (getVisibleCanvasSize demo_scene) \<and>
   (\<exists>s'. refs (addImageToCanvas (Some \<lparr> i_width = None, i_height = Some 0 \<rparr>) (1/2) (1/4) demo) = Some s' \<and>
      o_scaleX (heap s' 3) = 1 \<and> o_scaleY (heap s' 3) = 1)"
  using image_scale_never_divides_by_zero [of demo demo_scene "\<lparr> i_width = None, i_height = Some 0 \<rparr>" "1/2" "1/4"]
  by (auto simp add: Let_def)



section \<open>Text placement\<close>

lemma getVisibleCanvasSize_cong:
  "c_width s' = c_width s \<Longrightarrow> c_height s' = c_height s \<Longrightarrow> zoom s' = zoom s \<Longrightarrow>
   getVisibleCanvasSize s' = getVisibleCanvasSize s"
  by (simp add: getVisibleCanvasSize_def)

lemma placeTextObjects_sel [simp]:
  "objects (placeTextObjects tm s) = objects s"
  "next_id (placeTextObjects tm s) = next_id s"
  "bg (placeTextObjects tm s) = bg s"
  "title (placeTextObjects tm s) = title s"
  "subtitle (placeTextObjects tm s) = subtitle s"
  "c_width (placeTextObjects tm s) = c_width s"
  "c_height (placeTextObjects tm s) = c_height s"
  "zoom (placeTextObjects tm s) = zoom s"
  "renderOnAddRemove (placeTextObjects tm s) = renderOnAddRemove s"
  "retina (placeTextObjects tm s) = retina s"
  "activeObject (placeTextObjects tm s) = activeObject s"
  "el_width (placeTextObjects tm s) = el_width s"
  "el_height (placeTextObjects tm s) = el_height s"
  "style_width (placeTextObjects tm s) = style_width s"
  "style_height (placeTextObjects tm s) = style_height s"
  "log (placeTextObjects tm s) = log s @
     (if fst (getVisibleCanvasSize s) = 0 \<or> snd (getVisibleCanvasSize s) = 0 then [] else [EvRender])"
  by (simp_all add: placeTextObjects_def Let_def)

lemma placeTextObjects_visible [simp]:
  "getVisibleCanvasSize (placeTextObjects tm s) = getVisibleCanvasSize s"
  by (rule getVisibleCanvasSize_cong) simp_all




lemma placeTextObjects_unfold:
  assumes "fst (getVisibleCanvasSize s) \<noteq> 0" "snd (getVisibleCanvasSize s) \<noteq> 0"
  shows "placeTextObjects tm s =
    c_requestRenderAll
      (obj_set (subtitle s) (measured tm)
        (obj_set (title s) (measured tm)
          (obj_set (subtitle s)
             (set_geometry (real_of_int (layout_padX (getVisibleCanvasSize s)))
                           (real_of_int (layout_top (getVisibleCanvasSize s) + 70))
                           (real_of_int (layout_width 900 (getVisibleCanvasSize s))))
            (obj_set (title s)
               (set_geometry (real_of_int (layout_padX (getVisibleCanvasSize s)))
                             (real_of_int (layout_top (getVisibleCanvasSize s)))
                             (real_of_int (layout_width 980 (getVisibleCanvasSize s)))) s))))"
  unfolding placeTextObjects_def Let_def initDimensions_def layout_padX_def layout_top_def
    layout_width_def
  using assms by (simp add: set_geometry_def [abs_def])


lemma measured_set_geometry_idem:
  "measured tm (set_geometry l t w (measured tm (set_geometry l t w ob))) =
   measured tm (set_geometry l t w ob)"
  by (simp add: measured_def set_geometry_def)

lemma measured_twice_set_geometry_idem:
  "measured tm (measured tm (set_geometry l' t' w' (set_geometry l t w
     (measured tm (measured tm (set_geometry l' t' w' (set_geometry l t w ob))))))) =
   measured tm (measured tm (set_geometry l' t' w' (set_geometry l t w ob)))"
  by (simp add: measured_def set_geometry_def)

lemma placeTextObjects_skip:
  "fst (getVisibleCanvasSize s) = 0 \<or> snd (getVisibleCanvasSize s) = 0 \<Longrightarrow> placeTextObjects tm s = s"
  by (simp add: placeTextObjects_def Let_def)

lemma placeTextObjects_heap:
  assumes "fst (getVisibleCanvasSize s) \<noteq> 0" "snd (getVisibleCanvasSize s) \<noteq> 0"
  shows "heap (placeTextObjects tm s) =
    (if title s = subtitle s
     then (heap s)(subtitle s := measured tm (measured tm
            (set_geometry (real_of_int (layout_padX (getVisibleCanvasSize s)))
                          (real_of_int (layout_top (getVisibleCanvasSize s) + 70))
                          (real_of_int (layout_width 900 (getVisibleCanvasSize s)))
              (set_geometry (real_of_int (layout_padX (getVisibleCanvasSize s)))
                            (real_of_int (layout_top (getVisibleCanvasSize s)))
                            (real_of_int (layout_width 980 (getVisibleCanvasSize s)))
                 (heap s (subtitle s))))))
     else (heap s)
       (title s := measured tm
            (set_geometry (real_of_int (layout_padX (getVisibleCanvasSize s)))
                          (real_of_int (layout_top (getVisibleCanvasSize s)))
                          (real_of_int (layout_width 980 (getVisibleCanvasSize s)))
               (heap s (title s))),
        subtitle s := measured tm
            (set_geometry (real_of_int (layout_padX (getVisibleCanvasSize s)))
                          (real_of_int (layout_top (getVisibleCanvasSize s) + 70))
                          (real_of_int (layout_width 900 (getVisibleCanvasSize s)))
               (heap s (subtitle s)))))"
proof -
  define gT where "gT = set_geometry (real_of_int (layout_padX (getVisibleCanvasSize s)))
                          (real_of_int (layout_top (getVisibleCanvasSize s)))
                          (real_of_int (layout_width 980 (getVisibleCanvasSize s)))"
  define gU where "gU = set_geometry (real_of_int (layout_padX (getVisibleCanvasSize s)))
                          (real_of_int (layout_top (getVisibleCanvasSize s) + 70))
                          (real_of_int (layout_width 900 (getVisibleCanvasSize s)))"
  have "placeTextObjects tm s =
    c_requestRenderAll (obj_set (subtitle s) (measured tm) (obj_set (title s) (measured tm)
          (obj_set (subtitle s) gU (obj_set (title s) gT s))))"
    unfolding gT_def gU_def using assms by (rule placeTextObjects_unfold)
  then have "heap (placeTextObjects tm s) =
     (if title s = subtitle s
      then (heap s)(subtitle s := measured tm (measured tm (gU (gT (heap s (subtitle s))))))
      else (heap s)(title s := measured tm (gT (heap s (title s))),
                    subtitle s := measured tm (gU (heap s (subtitle s)))))"
    by (simp add: fun_eq_iff)
  then show ?thesis unfolding gT_def gU_def .
qed

lemma placeTextObjects_heap_idem:
  "heap (placeTextObjects tm (placeTextObjects tm s)) = heap (placeTextObjects tm s)"
proof (cases "fst (getVisibleCanvasSize s) = 0 \<or> snd (getVisibleCanvasSize s) = 0")
  case True
  then show ?thesis by (simp add: placeTextObjects_skip)
next
  case False
  then have nz: "fst (getVisibleCanvasSize s) \<noteq> 0" "snd (getVisibleCanvasSize s) \<noteq> 0"
    by simp_all
  have nz': "fst (getVisibleCanvasSize (placeTextObjects tm s)) \<noteq> 0"
    "snd (getVisibleCanvasSize (placeTextObjects tm s)) \<noteq> 0"
    using nz by simp_all
  show ?thesis
    unfolding placeTextObjects_heap [OF nz'] unfolding placeTextObjects_heap [OF nz]
    by (simp add: fun_eq_iff measured_set_geometry_idem measured_twice_set_geometry_idem)
qed


lemma set_geometry_overwrites:
  "set_geometry l' t' w' (set_geometry l t w ob) = set_geometry l' t' w' ob"
  by (simp add: set_geometry_def)

text \<open>
  Claim C8. For a fixed visible canvas size, running \<^verbatim>\<open>placeTextObjects\<close> twice
  in succession yields the same left, top and width of the title and of the subtitle as
  running it once (the whole heap is the same). The placement is computed from scratch:
  when it is not skipped, whatever left, top and width the two labels had before, the
  result is the same.
\<close>

theorem placeTextObjects_idempotent:
  "let once = placeTextObjects tm s; twice = placeTextObjects tm once
   in o_left (heap twice (title s)) = o_left (heap once (title s)) \<and>
      o_top (heap twice (title s)) = o_top (heap once (title s)) \<and>
      o_width (heap twice (title s)) = o_width (heap once (title s)) \<and>
      o_left (heap twice (subtitle s)) = o_left (heap once (subtitle s)) \<and>
      o_top (heap twice (subtitle s)) = o_top (heap once (subtitle s)) \<and>
      o_width (heap twice (subtitle s)) = o_width (heap once (subtitle s)) \<and>
      heap twice = heap once \<and> objects twice = objects once \<and>
      getVisibleCanvasSize twice = getVisibleCanvasSize s \<and>
      (fst (getVisibleCanvasSize s) \<noteq> 0 \<and> snd (getVisibleCanvasSize s) \<noteq> 0 \<longrightarrow>
         (\<forall>l t w l' t' w'.
            heap (placeTextObjects tm (obj_set (subtitle s) (set_geometry l' t' w')
                    (obj_set (title s) (set_geometry l t w) s))) = heap once))"
proof -
  have idem: "heap (placeTextObjects tm (placeTextObjects tm s)) = heap (placeTextObjects tm s)"
    by (rule placeTextObjects_heap_idem)
  have anew: "heap (placeTextObjects tm (obj_set (subtitle s) (set_geometry l' t' w')
                    (obj_set (title s) (set_geometry l t w) s))) = heap (placeTextObjects tm s)"
    if nz: "fst (getVisibleCanvasSize s) \<noteq> 0" "snd (getVisibleCanvasSize s) \<noteq> 0"
    for l t w l' t' w'
  proof -
    let ?s = "obj_set (subtitle s) (set_geometry l' t' w') (obj_set (title s) (set_geometry l t w) s)"
    have vis: "getVisibleCanvasSize ?s = getVisibleCanvasSize s"
      by (rule getVisibleCanvasSize_cong) simp_all
    have nz': "fst (getVisibleCanvasSize ?s) \<noteq> 0" "snd (getVisibleCanvasSize ?s) \<noteq> 0"
      by (simp_all add: vis nz)
    show ?thesis
      unfolding placeTextObjects_heap [OF nz'] placeTextObjects_heap [OF nz] vis
      by (simp add: fun_eq_iff set_geometry_overwrites)
  qed
  show ?thesis
    unfolding Let_def idem using anew by simp
qed

theorem placeTextObjects_idempotent_witness:
  "fst (getVisibleCanvasSize demo_scene) \<noteq> 0 \<and> snd (getVisibleCanvasSize demo_scene) \<noteq> 0 \<and>
   heap (placeTextObjects tm0 (obj_set 2 (set_geometry 300 400 50)
           (obj_set 1 (set_geometry 10 20 30) demo_scene))) = heap (placeTextObjects tm0 demo_scene)"
  using placeTextObjects_idempotent [of tm0 demo_scene]
  by (simp add: Let_def)

section \<open>Presets\<close>


lemma applyPreset_live:
  assumes "refs cmp = Some s"
  shows "applyPreset tm k cmp = \<lparr> preset = k, refs = Some
     (c_requestRenderAll (initDimensions tm (subtitle s) (initDimensions tm (title s)
        (obj_set (subtitle s) (\<lambda>ob. ob\<lparr> o_text := preset_subtitle k \<rparr>)
          (obj_set (title s) (\<lambda>ob. ob\<lparr> o_text := preset_title k \<rparr>) s))))) \<rparr>"
  using assms by (simp add: applyPreset_def Let_def)




section \<open>Export\<close>

lemma exportPNG_live:
  assumes "refs cmp = Some s"
  shows "refs (exportPNG isDark cmp) = Some
    ((c_requestRenderAll (c_remove (next_id s) (c_toDataURL (c_requestRenderAll
        (c_discardActiveObject (c_sendToBack (next_id s) (c_add (next_id s)
           (snd (alloc (new_object\<lparr> o_left := 0, o_top := 0,
                 o_width := fst (getVisibleCanvasSize s), o_height := snd (getVisibleCanvasSize s),
                 o_selectable := False, o_evented := False, o_fill := export_fill isDark \<rparr>) s)))))))))
      \<lparr> log := log (c_requestRenderAll (c_remove (next_id s) (c_toDataURL (c_requestRenderAll
        (c_discardActiveObject (c_sendToBack (next_id s) (c_add (next_id s)
           (snd (alloc (new_object\<lparr> o_left := 0, o_top := 0,
                 o_width := fst (getVisibleCanvasSize s), o_height := snd (getVisibleCanvasSize s),
                 o_selectable := False, o_evented := False, o_fill := export_fill isDark \<rparr>) s))))))))) @ [EvDownload] \<rparr>)"
  using assms by (simp add: exportPNG_def Let_def)

lemma exportPNG_events:
  assumes "refs cmp = Some s"
  shows "events_of s (exportPNG isDark cmp) =
     EvAdd (next_id s) # (if renderOnAddRemove s then [EvRender] else []) @
     EvSendToBack (next_id s) # (if renderOnAddRemove s then [EvRender] else []) @
     [EvRender, EvToDataURL, EvRemove (next_id s)] @ (if renderOnAddRemove s then [EvRender] else []) @
     [EvRender, EvDownload]"
  unfolding events_of_def exportPNG_live [OF assms]
  by (simp add: new_events_def)

lemma exportPNG_objects:
  assumes "refs cmp = Some s" "next_id s \<notin> set (objects s)"
  shows "\<exists>s'. refs (exportPNG isDark cmp) = Some s' \<and> objects s' = objects s \<and>
     heap s' (next_id s) = new_object\<lparr> o_left := 0, o_top := 0,
                 o_width := fst (getVisibleCanvasSize s), o_height := snd (getVisibleCanvasSize s),
                 o_selectable := False, o_evented := False, o_fill := export_fill isDark \<rparr> \<and>
     (\<forall>x. x \<noteq> next_id s \<and> \<not> in_selection s x \<longrightarrow> heap s' x = heap s x)"
proof -
  let ?rect = "new_object\<lparr> o_left := 0, o_top := 0,
                 o_width := fst (getVisibleCanvasSize s), o_height := snd (getVisibleCanvasSize s),
                 o_selectable := False, o_evented := False, o_fill := export_fill isDark \<rparr>"
  let ?s2 = "c_sendToBack (next_id s) (c_add (next_id s) (snd (alloc ?rect s)))"
  have h2: "heap ?s2 = (heap s)(next_id s := ?rect)" and a2: "activeObject ?s2 = activeObject s"
    by simp_all
  have new: "released ?s2 (next_id s) = ?rect"
    by (simp add: released_other new_object_def)
  have old: "released ?s2 x = heap s x" if "x \<noteq> next_id s" "\<not> in_selection s x" for x
  proof -
    have "\<not> in_selection ?s2 x"
      using that by (cases "activeObject s") (simp_all add: in_selection_def)
    then have "released ?s2 x = heap ?s2 x" by (rule released_not_in_selection)
    then show ?thesis using that(1) by (simp add: h2)
  qed
  have objs: "remove1 (next_id s) (objects s @ [next_id s]) = objects s"
    using assms(2) by (simp add: remove1_append)
  show ?thesis
    unfolding exportPNG_live [OF assms(1)]
    by (rule exI, rule conjI [OF refl]) (simp add: objs new old)
qed

text \<open>
  Claim C7. For every mounted scene and theme, after \<^verbatim>\<open>exportPNG\<close> the canvas
  holds the objects it held before, in the same order: the temporary rectangle (a new
  object, filled with the export colour of the theme and sized to the visible canvas)
  is added, sent to the back, captured and removed again, so no object is gained or
  lost. The objects of the canvas are unchanged, but for the members of a selection of
  several objects, which \<^verbatim>\<open>discardActiveObject\<close> releases.
\<close>

theorem exportPNG_restores_objects:
  assumes "refs cmp = Some s" "next_id s \<notin> set (objects s)"
  shows "\<exists>s'. refs (exportPNG isDark cmp) = Some s' \<and>
     objects s' = objects s \<and> set (objects s') = set (objects s) \<and>
     next_id s \<notin> set (objects s') \<and>
     (\<forall>x \<in> set (objects s). \<not> in_selection s x \<longrightarrow> heap s' x = heap s x) \<and>
     o_fill (heap s' (next_id s)) = export_fill isDark \<and>
     o_width (heap s' (next_id s)) = fst (getVisibleCanvasSize s) \<and>
     o_height (heap s' (next_id s)) = snd (getVisibleCanvasSize s) \<and>
     [EvAdd (next_id s), EvSendToBack (next_id s), EvToDataURL, EvRemove (next_id s)] =
       filter (\<lambda>ev. ev \<noteq> EvRender \<and> ev \<noteq> EvDownload) (events_of s (exportPNG isDark cmp))"
proof -
  from exportPNG_objects [OF assms, of isDark] obtain s' where
    s': "refs (exportPNG isDark cmp) = Some s'" and o: "objects s' = objects s"
    and h: "heap s' (next_id s) = new_object\<lparr> o_left := 0, o_top := 0,
                 o_width := fst (getVisibleCanvasSize s), o_height := snd (getVisibleCanvasSize s),
                 o_selectable := False, o_evented := False, o_fill := export_fill isDark \<rparr>"
    and k: "\<forall>x. x \<noteq> next_id s \<and> \<not> in_selection s x \<longrightarrow> heap s' x = heap s x"
    by blast
  have ev: "[EvAdd (next_id s), EvSendToBack (next_id s), EvToDataURL, EvRemove (next_id s)] =
       filter (\<lambda>ev. ev \<noteq> EvRender \<and> ev \<noteq> EvDownload) (events_of s (exportPNG isDark cmp))"
    unfolding exportPNG_events [OF assms(1)] by simp
  have frame: "\<forall>x \<in> set (objects s). \<not> in_selection s x \<longrightarrow> heap s' x = heap s x"
  proof (intro ballI impI)
    fix x
    assume x: "x \<in> set (objects s)" and n: "\<not> in_selection s x"
    from x assms(2) have "x \<noteq> next_id s" by auto
    with k n show "heap s' x = heap s x" by simp
  qed
  have o': "set (objects s') = set (objects s)" "next_id s \<notin> set (objects s')"
    using assms(2) by (simp_all add: o)
  have attrs: "o_fill (heap s' (next_id s)) = export_fill isDark"
    "o_width (heap s' (next_id s)) = fst (getVisibleCanvasSize s)"
    "o_height (heap s' (next_id s)) = snd (getVisibleCanvasSize s)"
    by (simp_all add: h)
  show ?thesis
    by (rule exI [where x = s'], intro conjI) (rule s' o o' frame attrs ev)+
qed

theorem exportPNG_restores_objects_witness:
  "next_id demo_scene \<notin> set (objects demo_scene) \<and>
   (\<exists>s'. refs (exportPNG True demo) = Some s' \<and> objects s' = [0, 1, 2] \<and>
      heap s' 0 = heap demo_scene 0 \<and> o_fill (heap s' 3) = ''#0B1020'')"
proof -
  have r: "refs demo = Some demo_scene" and f: "next_id demo_scene \<notin> set (objects demo_scene)"
    by simp_all
  have n: "\<not> in_selection demo_scene 0"
    by (simp add: in_selection_def)
  from exportPNG_restores_objects [OF r f, of True] obtain s' where
    s': "refs (exportPNG True demo) = Some s'" and o: "objects s' = objects demo_scene"
    and h: "\<forall>x \<in> set (objects demo_scene). \<not> in_selection demo_scene x \<longrightarrow>
              heap s' x = heap demo_scene x"
    and c: "o_fill (heap s' (next_id demo_scene)) = export_fill True"
    by (elim exE conjE)
  from h n have "heap s' 0 = heap demo_scene 0" by simp
  with s' o c f show ?thesis by (simp add: export_fill_def)
qed

text \<open>
  Claim C3, as the code has it. During every \<^verbatim>\<open>exportPNG\<close> call a render is
  requested between the insertion of the temporary rectangle (add and send-to-back) and
  the serialization: the explicit \<^verbatim>\<open>requestRenderAll\<close> after
  \<^verbatim>\<open>discardActiveObject\<close>, preceded by the one that \<^verbatim>\<open>sendToBack\<close> issues
  when \<^verbatim>\<open>renderOnAddRemove\<close> is set. No render is requested between the capture
  and the removal of the temporary rectangle.
\<close>

theorem exportPNG_render_requests:
  assumes "refs cmp = Some s"
  shows "let evs = events_of s (exportPNG isDark cmp); n = next_id s
         in segment_between (EvSendToBack n) EvToDataURL evs =
              Some ((if renderOnAddRemove s then [EvRender] else []) @ [EvRender]) \<and>
            render_between (EvSendToBack n) EvToDataURL evs \<and>
            segment_between EvToDataURL (EvRemove n) evs = Some [] \<and>
            \<not> render_between EvToDataURL (EvRemove n) evs"
  unfolding exportPNG_events [OF assms] Let_def
  by (simp add: segment_between_def render_between_def)

theorem exportPNG_render_requests_witness:
  "refs demo = Some demo_scene \<and>
   segment_between (EvSendToBack 3) EvToDataURL (events_of demo_scene (exportPNG True demo))
     = Some [EvRender, EvRender] \<and>
   \<not> render_between EvToDataURL (EvRemove 3) (events_of demo_scene (exportPNG True demo))"
  using exportPNG_render_requests [of demo demo_scene True]
  by (simp add: Let_def)

text \<open>
  The claim as stated (no render request between insertion and capture, and none between
  capture and removal) fails on the demo scene: two requests precede the capture.
\<close>

theorem exportPNG_render_before_capture_counterexample:
  "\<not> (\<not> render_between (EvSendToBack 3) EvToDataURL (events_of demo_scene (exportPNG True demo)) \<and>
       \<not> render_between EvToDataURL (EvRemove 3) (events_of demo_scene (exportPNG True demo)))"
proof -
  have "events_of demo_scene (exportPNG True demo) =
     [EvAdd 3, EvRender, EvSendToBack 3, EvRender, EvRender, EvToDataURL, EvRemove 3, EvRender,
      EvRender, EvDownload]"
    by (simp add: exportPNG_events [of demo demo_scene])
  then show ?thesis
    by (simp add: segment_between_def render_between_def)
qed


section \<open>Fitting the canvas to its wrapper\<close>

lemma fit_resized_sel [simp]:
  "c_width (fit_resized wCss hCss nw nh dpr s) = nw"
  "c_height (fit_resized wCss hCss nw nh dpr s) = nh"
  "zoom (fit_resized wCss hCss nw nh dpr s) = dpr"
  "style_width (fit_resized wCss hCss nw nh dpr s) = nw"
  "style_height (fit_resized wCss hCss nw nh dpr s) = nh"
  "el_width (fit_resized wCss hCss nw nh dpr s) =
     (if 1 < retina s then \<lfloor>real_of_int nw * retina s\<rfloor> else nw)"
  "el_height (fit_resized wCss hCss nw nh dpr s) =
     (if 1 < retina s then \<lfloor>real_of_int nh * retina s\<rfloor> else nh)"
  "retina (fit_resized wCss hCss nw nh dpr s) = retina s"
  "activeObject (fit_resized wCss hCss nw nh dpr s) = activeObject s"
  "renderOnAddRemove (fit_resized wCss hCss nw nh dpr s) = renderOnAddRemove s"
  "objects (fit_resized wCss hCss nw nh dpr s) = objects s"
  "next_id (fit_resized wCss hCss nw nh dpr s) = next_id s"
  "bg (fit_resized wCss hCss nw nh dpr s) = bg s"
  "title (fit_resized wCss hCss nw nh dpr s) = title s"
  "subtitle (fit_resized wCss hCss nw nh dpr s) = subtitle s"
  "heap (fit_resized wCss hCss nw nh dpr s) =
     (heap s)(bg s := (heap s (bg s))\<lparr> o_left := 0, o_top := 0, o_width := real_of_int nw,
                                        o_height := real_of_int nh \<rparr>)"
  by (simp_all add: fit_resized_def Let_def)

lemma fit_resized_log:
  "log (fit_resized wCss hCss nw nh dpr s) = log s @
     (if el_width s \<noteq> nw then [EvElWidth nw] else []) @
     (if el_height s \<noteq> nh then [EvElHeight nh] else []) @
     [EvSetWidth nw, EvElWidth nw] @
     (if 1 < retina s
      then [EvElWidth \<lfloor>real_of_int nw * retina s\<rfloor>,
            EvElHeight \<lfloor>real_of_int (c_height s) * retina s\<rfloor>] else []) @
     [EvRender, EvSetHeight nh, EvElHeight nh] @
     (if 1 < retina s
      then [EvElWidth \<lfloor>real_of_int nw * retina s\<rfloor>,
            EvElHeight \<lfloor>real_of_int nh * retina s\<rfloor>] else []) @
     [EvRender, EvSetZoom dpr] @ (if renderOnAddRemove s then [EvRender] else [])"
  by (simp add: fit_resized_def Let_def)

lemma fitCanvasToWrap_unfold:
  assumes "wrap_rect e = Some (rw, rh)"
  shows "fitCanvasToWrap tm e s =
     placeTextObjects tm
       (fit_resized (max 320 \<lfloor>rw\<rfloor>) (max 360 \<lfloor>rh\<rfloor>)
          \<lfloor>real_of_int (max 320 \<lfloor>rw\<rfloor>) * fit_dpr e\<rfloor>
          \<lfloor>real_of_int (max 360 \<lfloor>rh\<rfloor>) * fit_dpr e\<rfloor> (fit_dpr e) s)"
  by (simp only: fitCanvasToWrap_def fit_resized_def Let_def assms option.case prod.case)

lemma floor_scaled_ge:
  fixes d :: real and w m :: int
  assumes "1 \<le> d" "m \<le> w" "0 \<le> m"
  shows "m \<le> \<lfloor>real_of_int w * d\<rfloor>"
proof -
  have "real_of_int m * 1 \<le> real_of_int w * d"
    using assms by (intro mult_mono) simp_all
  then show ?thesis by (simp add: le_floor_iff)
qed

lemma floor_scaled_mono:
  fixes d :: real and w m :: int
  assumes "0 \<le> d" "m \<le> w"
  shows "\<lfloor>real_of_int m * d\<rfloor> \<le> \<lfloor>real_of_int w * d\<rfloor>"
  using assms by (intro floor_mono mult_right_mono) simp_all

lemma fit_dpr_ge_1:
  "(case devicePixelRatio e of None \<Rightarrow> True | Some d \<Rightarrow> d = 0 \<or> 1 \<le> d) \<Longrightarrow> 1 \<le> fit_dpr e"
  by (auto simp add: fit_dpr_def or_one_def split: option.splits)

text \<open>The scene before the first fit.\<close>

lemma premount_sel [simp]:
  "objects (premount isDark r sz) = [0, 1, 2]" "next_id (premount isDark r sz) = 3"
  "bg (premount isDark r sz) = 0" "title (premount isDark r sz) = 1"
  "subtitle (premount isDark r sz) = 2" "retina (premount isDark r sz) = r"
  "renderOnAddRemove (premount isDark r sz) = True"
  "activeObject (premount isDark r sz) = NoActive"
  "c_width (premount isDark r sz) = fst sz" "c_height (premount isDark r sz) = snd sz"
  "zoom (premount isDark r sz) = 1"
  "el_width (premount isDark r sz) = (if 1 < r then \<lfloor>real_of_int (fst sz) * r\<rfloor> else fst sz)"
  "el_height (premount isDark r sz) = (if 1 < r then \<lfloor>real_of_int (snd sz) * r\<rfloor> else snd sz)"
  by (simp_all add: premount_def Let_def new_canvas_def)

lemma lowdpi_scene_sel [simp]:
  "el_width lowdpi_scene = 1600" "el_height lowdpi_scene = 1200" "c_width lowdpi_scene = 1600"
  "c_height lowdpi_scene = 1200" "zoom lowdpi_scene = 1" "retina lowdpi_scene = 1"
  "renderOnAddRemove lowdpi_scene = True"
  by (simp_all add: lowdpi_scene_def fitCanvasToWrap_unfold [of _ 1600 1200] fit_dpr_def or_one_def)

lemma halfdpi_scene_sel [simp]:
  "el_width halfdpi_scene = 160" "el_height halfdpi_scene = 180" "c_width halfdpi_scene = 160"
  "c_height halfdpi_scene = 180" "zoom halfdpi_scene = 1/2" "retina halfdpi_scene = 1/2"
  "style_width halfdpi_scene = 160" "style_height halfdpi_scene = 180"
  by (simp_all add: halfdpi_scene_def fitCanvasToWrap_unfold [of _ 0 0] fit_dpr_def or_one_def)




text \<open>
  The guard on \<^verbatim>\<open>el.width\<close> and \<^verbatim>\<open>el.height\<close> does not keep the bitmap of the
  element: \<^verbatim>\<open>setWidth\<close> and \<^verbatim>\<open>setHeight\<close> assign the attributes again. A refit of
  the demo scene in its own wrapper changes no size, and the attributes of the element
  are assigned all the same.
\<close>

lemma refit_assigns_element:
  "c_width (fitCanvasToWrap tm0 demo_env demo_scene) = c_width demo_scene \<and>
   c_height (fitCanvasToWrap tm0 demo_env demo_scene) = c_height demo_scene \<and>
   el_width (fitCanvasToWrap tm0 demo_env demo_scene) = el_width demo_scene \<and>
   el_height (fitCanvasToWrap tm0 demo_env demo_scene) = el_height demo_scene \<and>
   EvElWidth 1600 \<in> set (new_events demo_scene (fitCanvasToWrap tm0 demo_env demo_scene)) \<and>
   EvElHeight 1200 \<in> set (new_events demo_scene (fitCanvasToWrap tm0 demo_env demo_scene))"
  by (simp add: fitCanvasToWrap_unfold [of _ 800 600] demo_env_def fit_dpr_def or_one_def
      new_events_def fit_resized_log)

text \<open>
  Claim C5, as the code has it. For every container rectangle, also a degenerate one,
  the fit step gives the canvas the size \<open>floor (max 320 (floor w) * dpr)\<close> by
  \<open>floor (max 360 (floor h) * dpr)\<close> with \<open>dpr = min (devicePixelRatio || 1) 2\<close>, and the
  element a bitmap of that size, times fabric's pixel ratio when that is above 1.
  Whenever the reported device pixel ratio is missing, zero or at least 1, the canvas
  and the bitmap are at least 320 by 360, hence not zero and not negative; for any
  non-negative ratio the canvas is at least \<open>floor (320 * dpr)\<close> by
  \<open>floor (360 * dpr)\<close>.
\<close>

theorem fitCanvasToWrap_minimum:
  assumes "wrap_rect e = Some (rw, rh)"
  shows "let nextWidth = \<lfloor>real_of_int (max 320 \<lfloor>rw\<rfloor>) * fit_dpr e\<rfloor>;
             nextHeight = \<lfloor>real_of_int (max 360 \<lfloor>rh\<rfloor>) * fit_dpr e\<rfloor>;
             s' = fitCanvasToWrap tm e s
         in c_width s' = nextWidth \<and> c_height s' = nextHeight \<and>
            el_width s' = (if 1 < retina s then \<lfloor>real_of_int nextWidth * retina s\<rfloor> else nextWidth) \<and>
            el_height s' = (if 1 < retina s then \<lfloor>real_of_int nextHeight * retina s\<rfloor> else nextHeight) \<and>
            (0 \<le> fit_dpr e \<longrightarrow>
               \<lfloor>320 * fit_dpr e\<rfloor> \<le> c_width s' \<and> \<lfloor>360 * fit_dpr e\<rfloor> \<le> c_height s') \<and>
            ((case devicePixelRatio e of None \<Rightarrow> True | Some d \<Rightarrow> d = 0 \<or> 1 \<le> d) \<longrightarrow>
               320 \<le> c_width s' \<and> 360 \<le> c_height s' \<and>
               320 \<le> el_width s' \<and> 360 \<le> el_height s')"
proof -
  let ?w = "max 320 \<lfloor>rw\<rfloor>" and ?h = "max 360 \<lfloor>rh\<rfloor>"
  let ?nw = "\<lfloor>real_of_int ?w * fit_dpr e\<rfloor>" and ?nh = "\<lfloor>real_of_int ?h * fit_dpr e\<rfloor>"
  have w: "320 \<le> ?w" and h: "360 \<le> ?h" by simp_all
  have big: "320 \<le> ?nw \<and> 360 \<le> ?nh \<and>
      320 \<le> (if 1 < retina s then \<lfloor>real_of_int ?nw * retina s\<rfloor> else ?nw) \<and>
      360 \<le> (if 1 < retina s then \<lfloor>real_of_int ?nh * retina s\<rfloor> else ?nh)"
    if "case devicePixelRatio e of None \<Rightarrow> True | Some d \<Rightarrow> d = 0 \<or> 1 \<le> d"
  proof -
    have d: "1 \<le> fit_dpr e" using that by (rule fit_dpr_ge_1)
    have nw: "320 \<le> ?nw" using d w by (intro floor_scaled_ge) simp_all
    have nh: "360 \<le> ?nh" using d h by (intro floor_scaled_ge) simp_all
    have "320 \<le> \<lfloor>real_of_int ?nw * retina s\<rfloor>" if "1 < retina s"
      using floor_scaled_ge [of "retina s" 320 ?nw] that nw by simp
    moreover have "360 \<le> \<lfloor>real_of_int ?nh * retina s\<rfloor>" if "1 < retina s"
      using floor_scaled_ge [of "retina s" 360 ?nh] that nh by simp
    ultimately show ?thesis using nw nh by simp
  qed
  have low: "\<lfloor>320 * fit_dpr e\<rfloor> \<le> ?nw \<and> \<lfloor>360 * fit_dpr e\<rfloor> \<le> ?nh"
    if "0 \<le> fit_dpr e"
    using floor_scaled_mono [OF that w] floor_scaled_mono [OF that h] by simp
  show ?thesis
    unfolding Let_def fitCanvasToWrap_unfold [OF assms]
    using big low by simp
qed

theorem fitCanvasToWrap_minimum_witness:
  "wrap_rect \<lparr> devicePixelRatio = None, wrap_rect = Some (0, 0) \<rparr> = Some (0, 0) \<and>
   0 \<le> fit_dpr \<lparr> devicePixelRatio = None, wrap_rect = Some (0, 0) \<rparr> \<and>
   c_width (fitCanvasToWrap tm0 \<lparr> devicePixelRatio = None, wrap_rect = Some (0, 0) \<rparr> demo_scene) = 320 \<and>
   c_height (fitCanvasToWrap tm0 \<lparr> devicePixelRatio = None, wrap_rect = Some (0, 0) \<rparr> demo_scene) = 360 \<and>
   320 \<le> el_width (fitCanvasToWrap tm0 \<lparr> devicePixelRatio = None, wrap_rect = Some (0, 0) \<rparr> demo_scene) \<and>
   360 \<le> el_height (fitCanvasToWrap tm0 \<lparr> devicePixelRatio = None, wrap_rect = Some (0, 0) \<rparr> demo_scene)"
  using fitCanvasToWrap_minimum [of "\<lparr> devicePixelRatio = None, wrap_rect = Some (0, 0) \<rparr>" 0 0 tm0 demo_scene]
  by (simp add: Let_def fit_dpr_def or_one_def)

text \<open>
  The claim as stated (never below 320 by 360 for every device pixel ratio) fails for a
  component mounted in an empty wrapper in a page loaded at ratio 1/2, which a browser
  zoomed out to 50% reports: the first fit gives a canvas and a bitmap of 160 by 180.
\<close>

theorem fitCanvasToWrap_minimum_counterexample:
  "el_width halfdpi_scene = 160 \<and> el_height halfdpi_scene = 180 \<and>
   c_width halfdpi_scene = 160 \<and> c_height halfdpi_scene = 180 \<and>
   \<not> (320 \<le> el_width halfdpi_scene \<and> 360 \<le> el_height halfdpi_scene)"
  by simp

section \<open>Reset\<close>

lemma reset_step_sel [simp]:
  "heap (reset_step s0 x acc) = heap acc" "next_id (reset_step s0 x acc) = next_id acc"
  "bg (reset_step s0 x acc) = bg acc" "title (reset_step s0 x acc) = title acc"
  "subtitle (reset_step s0 x acc) = subtitle acc" "c_width (reset_step s0 x acc) = c_width acc"
  "c_height (reset_step s0 x acc) = c_height acc" "zoom (reset_step s0 x acc) = zoom acc"
  "activeObject (reset_step s0 x acc) = activeObject acc"
  "objects (reset_step s0 x acc) =
     (if x \<noteq> bg s0 \<and> x \<noteq> title s0 \<and> x \<noteq> subtitle s0 then remove1 x (objects acc)
      else objects acc)"
  by (simp_all add: reset_step_def)

lemma reset_fold_sel [simp]:
  "heap (fold (reset_step s0) xs acc) = heap acc"
  "next_id (fold (reset_step s0) xs acc) = next_id acc"
  "bg (fold (reset_step s0) xs acc) = bg acc"
  "title (fold (reset_step s0) xs acc) = title acc"
  "subtitle (fold (reset_step s0) xs acc) = subtitle acc"
  "c_width (fold (reset_step s0) xs acc) = c_width acc"
  "c_height (fold (reset_step s0) xs acc) = c_height acc"
  "zoom (fold (reset_step s0) xs acc) = zoom acc"
  "activeObject (fold (reset_step s0) xs acc) = activeObject acc"
  by (induction xs arbitrary: acc; simp)+

lemma reset_fold_objects:
  "distinct (objects acc) \<Longrightarrow>
   objects (fold (reset_step s0) xs acc) =
     filter (\<lambda>y. y = bg s0 \<or> y = title s0 \<or> y = subtitle s0 \<or> y \<notin> set xs) (objects acc)"
proof (induction xs arbitrary: acc)
  case Nil
  then show ?case by simp
next
  case (Cons x xs)
  have d: "distinct (objects (reset_step s0 x acc))"
    using Cons.prems by simp
  show ?case
  proof (cases "x \<noteq> bg s0 \<and> x \<noteq> title s0 \<and> x \<noteq> subtitle s0")
    case True
    have o: "objects (reset_step s0 x acc) = filter (\<lambda>y. y \<noteq> x) (objects acc)"
      using Cons.prems True
      by (auto simp add: distinct_remove1_removeAll removeAll_filter_not_eq intro: filter_cong)
    show ?thesis
      by (simp only: fold_Cons comp_apply Cons.IH [OF d] o filter_filter)
         (rule filter_cong, use True in auto)
  next
    case False
    have o: "objects (reset_step s0 x acc) = objects acc"
      using False by auto
    show ?thesis
      by (simp only: fold_Cons comp_apply Cons.IH [OF d] o)
         (rule filter_cong, use False in auto)
  qed
qed

lemma reset_objects:
  assumes "distinct (objects s)"
  shows "objects (fold (reset_step s) (c_getObjects s) s) =
     filter (\<lambda>y. y = bg s \<or> y = title s \<or> y = subtitle s) (objects s)"
  unfolding c_getObjects_def reset_fold_objects [OF assms]
  by (rule filter_cong) auto

lemma three_protected:
  assumes "distinct xs" "distinct [a, b, c]" "a \<in> set xs" "b \<in> set xs" "c \<in> set xs"
  shows "length (filter (\<lambda>y. y = a \<or> y = b \<or> y = c) xs) = 3"
    and "set (filter (\<lambda>y. y = a \<or> y = b \<or> y = c) xs) = {a, b, c}"
proof -
  show s: "set (filter (\<lambda>y. y = a \<or> y = b \<or> y = c) xs) = {a, b, c}"
    using assms by auto
  have "distinct (filter (\<lambda>y. y = a \<or> y = b \<or> y = c) xs)"
    using assms(1) by simp
  then have "length (filter (\<lambda>y. y = a \<or> y = b \<or> y = c) xs) = card {a, b, c}"
    unfolding s [symmetric] by (rule distinct_card [symmetric])
  then show "length (filter (\<lambda>y. y = a \<or> y = b \<or> y = c) xs) = 3"
    using assms(2) by simp
qed

lemma live_visible:
  assumes "live s"
  shows "fst (getVisibleCanvasSize s) \<noteq> 0" "snd (getVisibleCanvasSize s) \<noteq> 0"
  using assms by (auto simp add: live_def getVisibleCanvasSize_def Let_def or_one_def)

lemma reset_live:
  assumes "refs cmp = Some s"
  shows "reset tm isDark cmp = \<lparr> preset = ux, refs = Some
     (placeTextObjects tm (c_discardActiveObject
        (initDimensions tm (subtitle s) (initDimensions tm (title s)
           (obj_set (subtitle s)
              (\<lambda>ob. ob\<lparr> o_text := preset_subtitle ux, o_angle := 0, o_scaleX := 1,
                           o_scaleY := 1, o_fill := subtitle_fill isDark \<rparr>)
              (obj_set (title s)
                 (\<lambda>ob. ob\<lparr> o_text := preset_title ux, o_angle := 0, o_scaleX := 1,
                              o_scaleY := 1, o_fill := title_fill isDark \<rparr>)
                 (fold (reset_step s) (c_getObjects s) s))))))) \<rparr>"
  using assms by (simp add: reset_def Let_def)


lemma demo_live: "live demo_scene"
  by (simp add: live_def)

lemma addImage_frame:
  assumes "refs cmp = Some s"
  shows "\<exists>s'. refs (addImageToCanvas (Some im) rx ry cmp) = Some s' \<and>
    objects s' = remove1 (subtitle s) (remove1 (title s) (objects s @ [next_id s]) @ [title s]) @ [subtitle s] \<and>
    next_id s' = Suc (next_id s) \<and> bg s' = bg s \<and> title s' = title s \<and> subtitle s' = subtitle s \<and>
    c_width s' = c_width s \<and> c_height s' = c_height s \<and> zoom s' = zoom s \<and>
    activeObject s' = ActiveObject (next_id s)"
  using assms by (simp add: addImageToCanvas_def Let_def)

lemma length_remove1_mem: "x \<in> set xs \<Longrightarrow> Suc (length (remove1 x xs)) = length xs"
  by (induction xs) auto

lemma addImage_live:
  assumes "refs cmp = Some s" "live s"
  shows "\<exists>s'. refs (addImageToCanvas (Some im) rx ry cmp) = Some s' \<and> live s' \<and>
           length (objects s') = Suc (length (objects s)) \<and> (\<forall>x. \<not> in_selection s' x)"
proof -
  from addImage_frame [OF assms(1), of im rx ry] obtain s' where
    s': "refs (addImageToCanvas (Some im) rx ry cmp) = Some s'"
    and o: "objects s' = remove1 (subtitle s) (remove1 (title s) (objects s @ [next_id s]) @ [title s]) @ [subtitle s]"
    and f: "next_id s' = Suc (next_id s)" "bg s' = bg s" "title s' = title s" "subtitle s' = subtitle s"
      "c_width s' = c_width s" "c_height s' = c_height s"
    and a: "activeObject s' = ActiveObject (next_id s)"
    by blast
  have sel: "\<forall>x. \<not> in_selection s' x"
    by (simp add: in_selection_def a)
  have fresh: "next_id s \<notin> set (objects s)"
    using assms(2) by (auto simp add: live_def list_all_iff)
  have TU: "title s \<noteq> subtitle s" "title s \<in> set (objects s)" "subtitle s \<in> set (objects s)"
      "bg s \<in> set (objects s)" "bg s \<noteq> title s" "bg s \<noteq> subtitle s" "distinct (objects s)"
    using assms(2) by (auto simp add: live_def)
  have o': "objects s' = remove1 (subtitle s) (remove1 (title s) (objects s)) @ [next_id s, title s, subtitle s]"
    using TU fresh by (auto simp add: o remove1_append)
  have "subtitle s \<in> set (remove1 (title s) (objects s))"
    using TU by simp
  then have "Suc (length (remove1 (subtitle s) (remove1 (title s) (objects s)))) =
      length (remove1 (title s) (objects s))"
    by (rule length_remove1_mem)
  moreover have "Suc (length (remove1 (title s) (objects s))) = length (objects s)"
    using TU(2) by (rule length_remove1_mem)
  ultimately have len: "length (objects s') = Suc (length (objects s))"
    by (simp add: o')
  have st: "set (objects s') = insert (next_id s) (set (objects s))"
    using TU by (auto simp add: o')
  have d: "distinct (objects s')"
    using TU fresh by (auto simp add: o')
  have "live s'"
    using assms(2) d TU by (auto simp add: live_def list_all_iff f st)
  with s' len sel show ?thesis by blast
qed

text \<open>
  The scene that \<^verbatim>\<open>reset\<close> leaves, up to the release of the selection: the state
  before \<^verbatim>\<open>c.discardActiveObject()\<close>.
\<close>

lemma reset_before_discard:
  "activeObject (initDimensions tm U (initDimensions tm T (obj_set U fU (obj_set T fT
      (fold (reset_step s0) xs s))))) = activeObject s"
  by simp

text \<open>
  What \<^verbatim>\<open>reset\<close> does in a mounted scene where neither label is a member of a
  selection of several objects: it removes exactly the objects that are not the
  background, the title or the subtitle, restores the texts, angle 0, scale 1 and the
  fill of the theme, and places the labels at the layout position of the visible size.
\<close>

lemma reset_restores_scene:
  assumes "refs cmp = Some s" "live s"
    and nT: "\<not> in_selection s (title s)" and nU: "\<not> in_selection s (subtitle s)"
  shows "\<exists>s'. refs (reset tm isDark cmp) = Some s' \<and> preset (reset tm isDark cmp) = ux \<and>
     objects s' = filter (\<lambda>x. x = bg s \<or> x = title s \<or> x = subtitle s) (objects s) \<and>
     set (objects s') = {bg s, title s, subtitle s} \<and> length (objects s') = 3 \<and>
     o_text (heap s' (title s)) = preset_title ux \<and>
     o_text (heap s' (subtitle s)) = preset_subtitle ux \<and>
     o_angle (heap s' (title s)) = 0 \<and> o_scaleX (heap s' (title s)) = 1 \<and>
     o_scaleY (heap s' (title s)) = 1 \<and>
     o_angle (heap s' (subtitle s)) = 0 \<and> o_scaleX (heap s' (subtitle s)) = 1 \<and>
     o_scaleY (heap s' (subtitle s)) = 1 \<and>
     o_fill (heap s' (title s)) = title_fill isDark \<and>
     o_fill (heap s' (subtitle s)) = subtitle_fill isDark \<and>
     o_left (heap s' (title s)) = real_of_int (layout_padX (getVisibleCanvasSize s)) \<and>
     o_top (heap s' (title s)) = real_of_int (layout_top (getVisibleCanvasSize s)) \<and>
     o_left (heap s' (subtitle s)) = real_of_int (layout_padX (getVisibleCanvasSize s)) \<and>
     o_top (heap s' (subtitle s)) = real_of_int (layout_top (getVisibleCanvasSize s) + 70) \<and>
     getVisibleCanvasSize s' = getVisibleCanvasSize s \<and>
     bg s' = bg s \<and> title s' = title s \<and> subtitle s' = subtitle s \<and> live s'"
proof -
  let ?fT = "\<lambda>ob. ob\<lparr> o_text := preset_title ux, o_angle := 0, o_scaleX := 1,
                              o_scaleY := 1, o_fill := title_fill isDark \<rparr>"
  let ?fU = "\<lambda>ob. ob\<lparr> o_text := preset_subtitle ux, o_angle := 0, o_scaleX := 1,
                           o_scaleY := 1, o_fill := subtitle_fill isDark \<rparr>"
  let ?s5 = "initDimensions tm (subtitle s) (initDimensions tm (title s)
           (obj_set (subtitle s) ?fU (obj_set (title s) ?fT
                 (fold (reset_step s) (c_getObjects s) s))))"
  let ?s6 = "c_discardActiveObject ?s5"
  let ?s' = "placeTextObjects tm ?s6"
  have TU: "title s \<noteq> subtitle s" "distinct (objects s)" "distinct [bg s, title s, subtitle s]"
    "bg s \<in> set (objects s)" "title s \<in> set (objects s)" "subtitle s \<in> set (objects s)"
    using assms(2) by (auto simp add: live_def)
  have r: "reset tm isDark cmp = \<lparr> preset = ux, refs = Some ?s' \<rparr>"
    by (rule reset_live [OF assms(1)])
  have a5: "activeObject ?s5 = activeObject s"
    by (rule reset_before_discard)
  have h5: "heap ?s5 (title s) = measured tm (?fT (heap s (title s)))"
      "heap ?s5 (subtitle s) = measured tm (?fU (heap s (subtitle s)))"
    using TU(1) by simp_all
  have "\<not> in_selection ?s5 (title s)"
    using nT TU(1) by (cases "activeObject s") (simp_all add: in_selection_def measured_def)
  then have relT: "released ?s5 (title s) = heap ?s5 (title s)"
    by (rule released_not_in_selection)
  have "\<not> in_selection ?s5 (subtitle s)"
    using nU TU(1) by (cases "activeObject s") (simp_all add: in_selection_def measured_def)
  then have relU: "released ?s5 (subtitle s) = heap ?s5 (subtitle s)"
    by (rule released_not_in_selection)
  have h6: "heap ?s6 (title s) = measured tm (?fT (heap s (title s)))"
      "heap ?s6 (subtitle s) = measured tm (?fU (heap s (subtitle s)))"
    by (simp_all only: c_discardActiveObject_sel relT relU h5)
  have vis6: "getVisibleCanvasSize ?s6 = getVisibleCanvasSize s"
    by (rule getVisibleCanvasSize_cong) simp_all
  have nz: "fst (getVisibleCanvasSize ?s6) \<noteq> 0" "snd (getVisibleCanvasSize ?s6) \<noteq> 0"
    using live_visible [OF assms(2)] by (simp_all add: vis6)
  have vis: "getVisibleCanvasSize ?s' = getVisibleCanvasSize s"
    by (simp add: vis6)
  have ids: "bg ?s' = bg s" "title ?s' = title s" "subtitle ?s' = subtitle s" "next_id ?s' = next_id s"
      "c_width ?s' = c_width s" "c_height ?s' = c_height s"
    by simp_all
  have t6: "title ?s6 = title s" "subtitle ?s6 = subtitle s"
    by simp_all
  have objs: "objects ?s' = filter (\<lambda>x. x = bg s \<or> x = title s \<or> x = subtitle s) (objects s)"
    by (simp add: reset_objects [OF TU(2)])
  note three = three_protected [OF TU(2) TU(3) TU(4) TU(5) TU(6)]
  have heapT: "heap ?s' (title s) =
      measured tm (set_geometry (real_of_int (layout_padX (getVisibleCanvasSize s)))
         (real_of_int (layout_top (getVisibleCanvasSize s)))
         (real_of_int (layout_width 980 (getVisibleCanvasSize s)))
         (measured tm (?fT (heap s (title s)))))"
    unfolding placeTextObjects_heap [OF nz] vis6 t6 using TU(1) by (simp add: relT relU)
  have heapU: "heap ?s' (subtitle s) =
      measured tm (set_geometry (real_of_int (layout_padX (getVisibleCanvasSize s)))
         (real_of_int (layout_top (getVisibleCanvasSize s) + 70))
         (real_of_int (layout_width 900 (getVisibleCanvasSize s)))
         (measured tm (?fU (heap s (subtitle s)))))"
    unfolding placeTextObjects_heap [OF nz] vis6 t6 using TU(1) by (simp add: relT relU)
  have lv: "live ?s'"
    unfolding live_def ids objs three(2)
    using assms(2) by (auto simp add: live_def list_all_iff)
  have labels:
     "o_text (heap ?s' (title s)) = preset_title ux"
     "o_text (heap ?s' (subtitle s)) = preset_subtitle ux"
     "o_angle (heap ?s' (title s)) = 0" "o_scaleX (heap ?s' (title s)) = 1"
     "o_scaleY (heap ?s' (title s)) = 1"
     "o_angle (heap ?s' (subtitle s)) = 0" "o_scaleX (heap ?s' (subtitle s)) = 1"
     "o_scaleY (heap ?s' (subtitle s)) = 1"
     "o_fill (heap ?s' (title s)) = title_fill isDark"
     "o_fill (heap ?s' (subtitle s)) = subtitle_fill isDark"
     "o_left (heap ?s' (title s)) = real_of_int (layout_padX (getVisibleCanvasSize s))"
     "o_top (heap ?s' (title s)) = real_of_int (layout_top (getVisibleCanvasSize s))"
     "o_left (heap ?s' (subtitle s)) = real_of_int (layout_padX (getVisibleCanvasSize s))"
     "o_top (heap ?s' (subtitle s)) = real_of_int (layout_top (getVisibleCanvasSize s) + 70)"
    unfolding heapT heapU by (simp_all add: measured_def set_geometry_def)
  have p: "preset (reset tm isDark cmp) = ux" and rf: "refs (reset tm isDark cmp) = Some ?s'"
    by (simp_all add: r)
  have set3: "set (objects ?s') = {bg s, title s, subtitle s}" and len3: "length (objects ?s') = 3"
    unfolding objs by (rule three)+
  show ?thesis
    by (rule exI [where x = "?s'"], intro conjI)
       (rule rf p objs set3 len3 labels vis ids lv)+
qed

text \<open>After three sprites were added, \<^verbatim>\<open>reset\<close> leaves three objects.\<close>

lemma reset_after_three_sprites:
  "\<exists>s s'. refs (addImageToCanvas (Some \<lparr> i_width = Some 640, i_height = Some 480 \<rparr>) (1/2) (1/2)
             (addImageToCanvas (Some \<lparr> i_width = Some 64, i_height = Some 64 \<rparr>) (1/4) (3/4)
               (addImageToCanvas (Some \<lparr> i_width = Some 4000, i_height = Some 3000 \<rparr>) 0 0 demo)))
            = Some s \<and> live s \<and> length (objects s) = 6 \<and>
     refs (reset tm0 True
            (addImageToCanvas (Some \<lparr> i_width = Some 640, i_height = Some 480 \<rparr>) (1/2) (1/2)
             (addImageToCanvas (Some \<lparr> i_width = Some 64, i_height = Some 64 \<rparr>) (1/4) (3/4)
               (addImageToCanvas (Some \<lparr> i_width = Some 4000, i_height = Some 3000 \<rparr>) 0 0 demo))))
            = Some s' \<and> length (objects s') = 3 \<and> o_angle (heap s' (title s)) = 0"
proof -
  let ?c1 = "addImageToCanvas (Some \<lparr> i_width = Some 4000, i_height = Some 3000 \<rparr>) 0 0 demo"
  let ?c2 = "addImageToCanvas (Some \<lparr> i_width = Some 64, i_height = Some 64 \<rparr>) (1/4) (3/4) ?c1"
  let ?c3 = "addImageToCanvas (Some \<lparr> i_width = Some 640, i_height = Some 480 \<rparr>) (1/2) (1/2) ?c2"
  have d: "refs demo = Some demo_scene" by simp
  from addImage_live [OF d demo_live, of "\<lparr> i_width = Some 4000, i_height = Some 3000 \<rparr>" 0 0]
  obtain s1 where
    s1: "refs ?c1 = Some s1" "live s1" "length (objects s1) = 4" by auto
  from addImage_live [OF s1(1) s1(2), of "\<lparr> i_width = Some 64, i_height = Some 64 \<rparr>" "1/4" "3/4"]
  obtain s2 where
    s2: "refs ?c2 = Some s2" "live s2" "length (objects s2) = 5" using s1(3) by auto
  from addImage_live [OF s2(1) s2(2), of "\<lparr> i_width = Some 640, i_height = Some 480 \<rparr>" "1/2" "1/2"]
  obtain s3 where
    s3: "refs ?c3 = Some s3" "live s3" "length (objects s3) = 6"
    and n3: "\<forall>x. \<not> in_selection s3 x" using s2(3) by auto
  from n3 have nT: "\<not> in_selection s3 (title s3)" and nU: "\<not> in_selection s3 (subtitle s3)"
    by simp_all
  from reset_restores_scene [OF s3(1) s3(2) nT nU, of tm0 True] obtain s' where
    "refs (reset tm0 True ?c3) = Some s'" "length (objects s') = 3" "o_angle (heap s' (title s3)) = 0"
    by (elim exE conjE)
  with s3 show ?thesis by blast
qed

text \<open>
  A member of a selection of several objects that is upright (angle 0, scale 1, no skew
  and no flip) takes the scale of the selection when the selection is released.
\<close>

lemma restore_member_upright:
  assumes "sel_matrix g = (k, 0, 0, k)" "0 < k"
    and "o_angle ob = 0" "o_scaleX ob = 1" "o_scaleY ob = 1" "o_skewX ob = 0" "o_skewY ob = 0"
    and "\<not> o_flipX ob" "\<not> o_flipY ob"
  shows "o_scaleX (restore_member g ob) = k" "o_scaleY (restore_member g ob) = k"
    "o_angle (restore_member g ob) = 0" "o_text (restore_member g ob) = o_text ob"
    "o_fill (restore_member g ob) = o_fill ob" "o_fontSize (restore_member g ob) = o_fontSize ob"
    "o_width (restore_member g ob) = o_width ob"
  using assms
  by (simp_all add: restore_member_def applyTransformToObject_def calcOwnMatrix_def
      calcRotateMatrix_def calcDimensionsMatrix_def multiplyTransformMatrices_def
      degreesToRadians_def atan2_def Let_def)


lemma reset_scaled_selection:
  assumes "refs cmp = Some s" "live s"
    and g: "activeObject s = ActiveSelection g" "sel_matrix g = (k, 0, 0, k)" "0 < k"
    and m: "o_group (heap s (title s))"
    and u: "o_skewX (heap s (title s)) = 0" "o_skewY (heap s (title s)) = 0"
      "\<not> o_flipX (heap s (title s))" "\<not> o_flipY (heap s (title s))"
  shows "\<exists>s'. refs (reset tm isDark cmp) = Some s' \<and>
     o_text (heap s' (title s)) = preset_title ux \<and> o_angle (heap s' (title s)) = 0 \<and>
     o_scaleX (heap s' (title s)) = k \<and> o_scaleY (heap s' (title s)) = k"
proof -
  let ?fT = "\<lambda>ob. ob\<lparr> o_text := preset_title ux, o_angle := 0, o_scaleX := 1,
                              o_scaleY := 1, o_fill := title_fill isDark \<rparr>"
  let ?fU = "\<lambda>ob. ob\<lparr> o_text := preset_subtitle ux, o_angle := 0, o_scaleX := 1,
                           o_scaleY := 1, o_fill := subtitle_fill isDark \<rparr>"
  let ?s5 = "initDimensions tm (subtitle s) (initDimensions tm (title s)
           (obj_set (subtitle s) ?fU (obj_set (title s) ?fT
                 (fold (reset_step s) (c_getObjects s) s))))"
  let ?s6 = "c_discardActiveObject ?s5"
  let ?s' = "placeTextObjects tm ?s6"
  let ?ob = "measured tm (?fT (heap s (title s)))"
  have TU: "title s \<noteq> subtitle s"
    using assms(2) by (auto simp add: live_def)
  have r: "reset tm isDark cmp = \<lparr> preset = ux, refs = Some ?s' \<rparr>"
    by (rule reset_live [OF assms(1)])
  have a5: "activeObject ?s5 = ActiveSelection g"
    by (simp only: reset_before_discard g)
  have h5: "heap ?s5 (title s) = ?ob"
    using TU by simp
  have "o_group (heap ?s5 (title s))"
    using m TU by (simp add: measured_def)
  with a5 have "released ?s5 (title s) = restore_member g (heap ?s5 (title s))"
    by (rule released_member)
  then have rel: "released ?s5 (title s) = restore_member g ?ob"
    by (simp only: h5)
  have up: "o_scaleX (restore_member g ?ob) = k" "o_scaleY (restore_member g ?ob) = k"
    "o_angle (restore_member g ?ob) = 0" "o_text (restore_member g ?ob) = o_text ?ob"
    using u by (intro restore_member_upright [OF g(2) g(3)]; simp add: measured_def)+
  have vis6: "getVisibleCanvasSize ?s6 = getVisibleCanvasSize s"
    by (rule getVisibleCanvasSize_cong) simp_all
  have nz: "fst (getVisibleCanvasSize ?s6) \<noteq> 0" "snd (getVisibleCanvasSize ?s6) \<noteq> 0"
    using live_visible [OF assms(2)] by (simp_all add: vis6)
  have t6: "title ?s6 = title s" "subtitle ?s6 = subtitle s"
    by simp_all
  have heapT: "heap ?s' (title s) =
      measured tm (set_geometry (real_of_int (layout_padX (getVisibleCanvasSize s)))
         (real_of_int (layout_top (getVisibleCanvasSize s)))
         (real_of_int (layout_width 980 (getVisibleCanvasSize s)))
         (restore_member g ?ob))"
    unfolding placeTextObjects_heap [OF nz] vis6 t6 using TU by (simp add: rel)
  have labels: "o_text (heap ?s' (title s)) = preset_title ux" "o_angle (heap ?s' (title s)) = 0"
     "o_scaleX (heap ?s' (title s)) = k" "o_scaleY (heap ?s' (title s)) = k"
    unfolding heapT using up by (simp_all add: measured_def set_geometry_def)
  have rf: "refs (reset tm isDark cmp) = Some ?s'"
    by (simp add: r)
  show ?thesis
    by (rule exI [where x = "?s'"], intro conjI) (rule rf labels)+
qed

lemma grouped_scene_sel [simp]:
  "refs grouped = Some grouped_scene" "title grouped_scene = 1" "subtitle grouped_scene = 2"
  "bg grouped_scene = 0" "objects grouped_scene = [0, 1, 2]" "next_id grouped_scene = 3"
  "c_width grouped_scene = 1600" "c_height grouped_scene = 1200" "zoom grouped_scene = 2"
  "activeObject grouped_scene = ActiveSelection
       \<lparr> sel_matrix = (2, 0, 0, 2),
         sel_position = (\<lambda>ob. (400 + 2 * o_left ob, 152 + 2 * o_top ob)) \<rparr>"
  by (simp_all add: grouped_def grouped_scene_def)

lemma grouped_live: "live grouped_scene"
  by (simp add: live_def)

text \<open>
  Claim C2 fails on the code in one state. \<^verbatim>\<open>reset\<close> writes angle 0 and scale 1 into
  the labels before it calls \<^verbatim>\<open>c.discardActiveObject()\<close>; when a label is a member of
  a selection of several objects, releasing the selection then writes the transform of
  the group into the label. In \<open>grouped_scene\<close>, where the user has scaled a selection
  of the title and the subtitle to twice its size, \<^verbatim>\<open>reset\<close> restores the text and
  leaves the title at scale 2, where the claim says scale 1.
\<close>

theorem reset_in_scaled_selection:
  "live grouped_scene \<and> in_selection grouped_scene (title grouped_scene) \<and>
   refs (reset tm0 True grouped) = Some grouped_after_reset \<and>
   o_text (heap grouped_after_reset (title grouped_scene)) = preset_title ux \<and>
   o_angle (heap grouped_after_reset (title grouped_scene)) = 0 \<and>
   o_scaleX (heap grouped_after_reset (title grouped_scene)) = 2 \<and>
   o_scaleY (heap grouped_after_reset (title grouped_scene)) = 2"
proof -
  have r: "refs grouped = Some grouped_scene" by simp
  have a: "activeObject grouped_scene = ActiveSelection
       \<lparr> sel_matrix = (2, 0, 0, 2),
         sel_position = (\<lambda>ob. (400 + 2 * o_left ob, 152 + 2 * o_top ob)) \<rparr>"
    by simp
  have m: "o_group (heap grouped_scene (title grouped_scene))"
    by (simp add: grouped_scene_def)
  have u: "o_skewX (heap grouped_scene (title grouped_scene)) = 0"
    "o_skewY (heap grouped_scene (title grouped_scene)) = 0"
    "\<not> o_flipX (heap grouped_scene (title grouped_scene))"
    "\<not> o_flipY (heap grouped_scene (title grouped_scene))"
    by (simp_all add: grouped_scene_def demo_scene_def new_object_def)
  from reset_scaled_selection [OF r grouped_live a _ _ m u, of 2 tm0 True] obtain s' where
    s': "refs (reset tm0 True grouped) = Some s'"
    and l: "o_text (heap s' (title grouped_scene)) = preset_title ux"
      "o_angle (heap s' (title grouped_scene)) = 0"
      "o_scaleX (heap s' (title grouped_scene)) = 2"
      "o_scaleY (heap s' (title grouped_scene)) = 2"
    by auto
  have e: "grouped_after_reset = s'"
    by (simp add: grouped_after_reset_def s')
  have i: "in_selection grouped_scene (title grouped_scene)"
    using m by (simp add: in_selection_def)
  show ?thesis
    unfolding e using grouped_live i s' l by simp
qed

section \<open>The invariant of a mounted scene\<close>

text \<open>
  \<open>live\<close> holds after \<^verbatim>\<open>init\<close> on a display whose pixel ratio is missing, zero
  or at least 1, and the handlers keep it.
\<close>

lemma init_live:
  assumes "wrap_rect e = Some (rw, rh)"
    and "case devicePixelRatio e of None \<Rightarrow> True | Some d \<Rightarrow> d = 0 \<or> 1 \<le> d"
  shows "\<exists>s. refs (init tm isDark r e sz cmp) = Some s \<and> live s \<and> objects s = [0, 1, 2] \<and>
           bg s = 0 \<and> title s = 1 \<and> subtitle s = 2 \<and> next_id s = 3 \<and>
           zoom s = fit_dpr e \<and> activeObject s = NoActive"
proof -
  have d: "1 \<le> fit_dpr e" using assms(2) by (rule fit_dpr_ge_1)
  have "320 \<le> \<lfloor>real_of_int (max 320 \<lfloor>rw\<rfloor>) * fit_dpr e\<rfloor>"
    using d by (intro floor_scaled_ge) simp_all
  moreover have "360 \<le> \<lfloor>real_of_int (max 360 \<lfloor>rh\<rfloor>) * fit_dpr e\<rfloor>"
    using d by (intro floor_scaled_ge) simp_all
  ultimately have nz: "\<lfloor>real_of_int (max 320 \<lfloor>rw\<rfloor>) * fit_dpr e\<rfloor> \<noteq> 0"
      "\<lfloor>real_of_int (max 360 \<lfloor>rh\<rfloor>) * fit_dpr e\<rfloor> \<noteq> 0"
    by linarith+
  show ?thesis
    unfolding init_def fitCanvasToWrap_unfold [OF assms(1)]
    using nz by (simp add: live_def)
qed

lemma exportPNG_keeps_live:
  assumes "refs cmp = Some s" "live s"
  shows "\<exists>s'. refs (exportPNG isDark cmp) = Some s' \<and> live s'"
proof -
  have fresh: "next_id s \<notin> set (objects s)"
    using assms(2) by (auto simp add: live_def list_all_iff)
  show ?thesis
    unfolding exportPNG_live [OF assms(1)] using assms(2) fresh
    by (auto simp add: live_def list_all_iff remove1_append)
qed

lemma applyPreset_keeps_live:
  assumes "refs cmp = Some s" "live s"
  shows "\<exists>s'. refs (applyPreset tm k cmp) = Some s' \<and> live s'"
  unfolding applyPreset_live [OF assms(1)] using assms(2)
  by (simp add: live_def)



text \<open>
  The demo scene is the scene that \<^verbatim>\<open>init\<close> builds in an 800 by 600 wrapper in a
  page loaded at device pixel ratio 2, in every field of the canvas, the element and the
  heap.
\<close>

lemma premount_heap:
  "heap (premount isDark r sz) = (\<lambda>_. new_object)
       (0 := new_object\<lparr> o_width := 2000, o_height := 2000, o_fill := ''rgba(0,0,0,0)'',
               o_selectable := False, o_evented := False \<rparr>,
        1 := new_object\<lparr> o_text := preset_title ux, o_left := 80, o_top := 120,
          o_width := 900, o_fontSize := 42, o_fill := title_fill isDark \<rparr>,
        2 := new_object\<lparr> o_text := preset_subtitle ux, o_left := 80,
          o_top := 210, o_width := 860, o_fontSize := 18, o_fill := subtitle_fill isDark \<rparr>)"
  by (simp add: premount_def Let_def new_canvas_def fun_eq_iff new_object_def)

lemma init_demo:
  "\<exists>s. refs (init tm0 True 2 demo_env (300, 150) cmp) = Some s \<and>
     objects s = objects demo_scene \<and> next_id s = next_id demo_scene \<and>
     bg s = bg demo_scene \<and> title s = title demo_scene \<and> subtitle s = subtitle demo_scene \<and>
     c_width s = c_width demo_scene \<and> c_height s = c_height demo_scene \<and>
     zoom s = zoom demo_scene \<and> retina s = retina demo_scene \<and>
     el_width s = el_width demo_scene \<and> el_height s = el_height demo_scene \<and>
     style_width s = style_width demo_scene \<and> style_height s = style_height demo_scene \<and>
     activeObject s = activeObject demo_scene \<and> heap s = heap demo_scene"
proof -
  have w: "wrap_rect demo_env = Some (800, 600)" by (simp add: demo_env_def)
  have d: "fit_dpr demo_env = 2" by (simp add: demo_env_def fit_dpr_def or_one_def)
  let ?s7 = "fit_resized 800 600 1600 1200 2 (premount True 2 (300, 150))"
  have r: "refs (init tm0 True 2 demo_env (300, 150) cmp) = Some (placeTextObjects tm0 ?s7)"
    unfolding init_def fitCanvasToWrap_unfold [OF w] d by simp
  have vis: "getVisibleCanvasSize ?s7 = (800, 600)"
    by (simp add: getVisibleCanvasSize_def or_one_def)
  have nz: "fst (getVisibleCanvasSize ?s7) \<noteq> 0" "snd (getVisibleCanvasSize ?s7) \<noteq> 0"
    by (simp_all add: vis)
  have h: "heap (placeTextObjects tm0 ?s7) = heap demo_scene"
    unfolding placeTextObjects_heap [OF nz] vis
    by (simp add: premount_heap fun_eq_iff demo_scene_def measured_def set_geometry_def tm0_def
        layout_padX_def layout_top_def layout_width_def new_object_def)
  show ?thesis
    by (rule exI [where x = "placeTextObjects tm0 ?s7"]) (simp add: r h)
qed

end
